theory Spec2Isabelle
  imports Complex_Main "HOL-Library.AList"
begin

section \<open>Digital Lounge: the real-time player-state synchronisation core\<close>

text \<open>
  A shallow embedding of the wire protocol (\<^verbatim>\<open>src/lib/websocket/protocol.ts\<close>), the
  server-side player registry and lounge server (\<^verbatim>\<open>server/PlayerRegistry.ts\<close>,
  \<^verbatim>\<open>server/index.ts\<close>), the client connection manager
  (\<^verbatim>\<open>src/lib/websocket/client.ts\<close>), the remote-player interpolation
  (\<^verbatim>\<open>src/lib/player/RemotePlayer.ts\<close>, \<^verbatim>\<open>PlayerManager.ts\<close>) and the chat command
  parser (\<^verbatim>\<open>src/lib/chat/ChatManager.ts\<close>).

  Conventions. A JavaScript \<^verbatim>\<open>number\<close> is a \<^typ>\<open>real\<close> in the records of the
  program; the one division of the modelled code whose divisor can be zero is written
  out as a separate outcome. In the values that \<^verbatim>\<open>JSON.stringify\<close> and \<^verbatim>\<open>JSON.parse\<close>
  exchange, a number is a decimal, \<^verbatim>\<open>NaN\<close> or an infinity (type \<open>jsnum\<close> below). A
  JavaScript \<^verbatim>\<open>Map\<close> is an association list with distinct keys in insertion order
  (the order its iterators follow). \<^verbatim>\<open>Date.now()\<close>, \<^verbatim>\<open>randomUUID()\<close> and the chat
  id generator are arguments of the functions that call them. What a handler writes to
  a socket is returned as a list of sends, in order.
\<close>

subsection \<open>JavaScript Map\<close>

type_synonym ('k, 'v) js_map = "('k \<times> 'v) list"

definition Map_get :: "('k, 'v) js_map \<Rightarrow> 'k \<Rightarrow> 'v option" where
  "Map_get m k = map_of m k"

definition Map_set :: "'k \<Rightarrow> 'v \<Rightarrow> ('k, 'v) js_map \<Rightarrow> ('k, 'v) js_map" where
  \<comment> \<open>an existing key keeps its place, a new key goes to the end\<close>
  "Map_set k v m = AList.update k v m"

definition Map_delete :: "'k \<Rightarrow> ('k, 'v) js_map \<Rightarrow> ('k, 'v) js_map" where
  "Map_delete k m = AList.delete k m"

definition Map_keys :: "('k, 'v) js_map \<Rightarrow> 'k list" where
  "Map_keys m = map fst m"

definition Map_values :: "('k, 'v) js_map \<Rightarrow> 'v list" where
  "Map_values m = map snd m"

subsection \<open>Player state (\<^verbatim>\<open>src/lib/player/types.ts\<close>)\<close>

record Vector3 =
  x :: real
  y :: real
  z :: real

datatype PlayerStatus = active | idle | away

datatype AvatarType = avatar_default | avatar_robot | avatar_alien | avatar_human

record PlayerState =
  player_id :: string
  username :: string
  position :: Vector3
  rotation :: Vector3
  avatar :: AvatarType
  status :: PlayerStatus
  color :: nat

record PlayerPositionUpdate =
  update_id :: string
  update_position :: Vector3
  update_rotation :: Vector3
  update_timestamp :: real

definition createDefaultPlayerState :: "(string \<Rightarrow> nat) \<Rightarrow> string \<Rightarrow> string \<Rightarrow> PlayerState" where
  \<comment> \<open>called without a colour, so the colour is \<^verbatim>\<open>generatePlayerColor(id)\<close>, a parameter here\<close>
  "createDefaultPlayerState generatePlayerColor i u =
     \<lparr> player_id = i, username = u,
       position = \<lparr> x = 0, y = 0, z = 0 \<rparr>,
       rotation = \<lparr> x = 0, y = 0, z = 0 \<rparr>,
       avatar = avatar_default, status = active,
       color = generatePlayerColor i \<rparr>"

subsection \<open>Server-side player registry (\<^verbatim>\<open>PlayerRegistry\<close>)\<close>

record ServerPlayerState = PlayerState +
  lastUpdate :: real
  dirty :: bool

text \<open>
  \<open>tickInterval\<close> is whether the interval timer is armed; \<open>onBroadcast\<close> is the
  registered callback or \<^verbatim>\<open>null\<close>. A call of the callback is returned by \<open>tick\<close> as
  the callback with its two arguments.
\<close>

record 'cb PlayerRegistry =
  players :: "(string, ServerPlayerState) js_map"
  tickInterval :: bool
  onBroadcast :: "'cb option"

definition newPlayerRegistry :: "'cb PlayerRegistry" where
  "newPlayerRegistry = \<lparr> players = [], tickInterval = False, onBroadcast = None \<rparr>"

definition start :: "'cb \<Rightarrow> 'cb PlayerRegistry \<Rightarrow> 'cb PlayerRegistry" where
  "start cb r = r\<lparr> onBroadcast := Some cb, tickInterval := True \<rparr>"

definition stop :: "'cb PlayerRegistry \<Rightarrow> 'cb PlayerRegistry" where
  "stop r = r\<lparr> tickInterval := False, onBroadcast := None \<rparr>"

definition toPublicState :: "ServerPlayerState \<Rightarrow> PlayerState" where
  "toPublicState server =
     \<lparr> player_id = player_id server, username = username server,
       position = position server, rotation = rotation server,
       avatar = avatar server, status = status server, color = color server \<rparr>"

definition addPlayer ::
  "(string \<Rightarrow> nat) \<Rightarrow> real \<Rightarrow> string \<Rightarrow> string \<Rightarrow> 'cb PlayerRegistry
     \<Rightarrow> PlayerState \<times> 'cb PlayerRegistry" where
  "addPlayer generatePlayerColor now clientId uname r =
     (let state = createDefaultPlayerState generatePlayerColor clientId uname;
          serverState = PlayerState.extend state
                          (ServerPlayerState.fields now True)
      in (state, r\<lparr> players := Map_set clientId serverState (players r) \<rparr>))"

definition removePlayer ::
  "string \<Rightarrow> 'cb PlayerRegistry \<Rightarrow> ServerPlayerState option \<times> 'cb PlayerRegistry" where
  "removePlayer clientId r =
     (case Map_get (players r) clientId of
        Some player \<Rightarrow> (Some player, r\<lparr> players := Map_delete clientId (players r) \<rparr>)
      | None \<Rightarrow> (None, r))"

definition updatePosition ::
  "real \<Rightarrow> string \<Rightarrow> Vector3 \<Rightarrow> Vector3 \<Rightarrow> 'cb PlayerRegistry \<Rightarrow> bool \<times> 'cb PlayerRegistry" where
  "updatePosition now clientId pos rot r =
     (case Map_get (players r) clientId of
        None \<Rightarrow> (False, r)
      | Some player \<Rightarrow>
          (True, r\<lparr> players := Map_set clientId
                     (player\<lparr> position := pos, rotation := rot,
                              lastUpdate := now, dirty := True \<rparr>) (players r) \<rparr>))"

definition updateStatus ::
  "real \<Rightarrow> string \<Rightarrow> PlayerStatus \<Rightarrow> 'cb PlayerRegistry \<Rightarrow> bool \<times> 'cb PlayerRegistry" where
  "updateStatus now clientId st r =
     (case Map_get (players r) clientId of
        None \<Rightarrow> (False, r)
      | Some player \<Rightarrow>
          (True, r\<lparr> players := Map_set clientId
                     (player\<lparr> status := st, lastUpdate := now \<rparr>) (players r) \<rparr>))"

definition getPlayer :: "'cb PlayerRegistry \<Rightarrow> string \<Rightarrow> PlayerState option" where
  "getPlayer r clientId = map_option toPublicState (Map_get (players r) clientId)"

definition getAllPlayers :: "'cb PlayerRegistry \<Rightarrow> PlayerState list" where
  "getAllPlayers r = map toPublicState (Map_values (players r))"

definition playerCount :: "'cb PlayerRegistry \<Rightarrow> nat" where
  "playerCount r = length (players r)"

definition positionUpdateOf :: "ServerPlayerState \<Rightarrow> PlayerPositionUpdate" where
  \<comment> \<open>the object literal pushed by \<^verbatim>\<open>tick\<close>\<close>
  "positionUpdateOf player =
     \<lparr> update_id = player_id player, update_position = position player,
       update_rotation = rotation player, update_timestamp = lastUpdate player \<rparr>"

text \<open>
  The \<^verbatim>\<open>for (const player of this.players.values())\<close> loop of \<^verbatim>\<open>tick\<close>: the entries
  still to visit, the entries already visited (with their flags as the loop left them)
  and the \<^verbatim>\<open>updates\<close> array.
\<close>

fun tick_loop ::
  "(string, ServerPlayerState) js_map \<Rightarrow> (string, ServerPlayerState) js_map
     \<Rightarrow> PlayerPositionUpdate list
     \<Rightarrow> (string, ServerPlayerState) js_map \<times> PlayerPositionUpdate list" where
  "tick_loop [] seen updates = (seen, updates)"
| "tick_loop ((k, player) # rest) seen updates =
     (if dirty player
      then tick_loop rest (seen @ [(k, player\<lparr> dirty := False \<rparr>)])
             (updates @ [positionUpdateOf player])
      else tick_loop rest (seen @ [(k, player)]) updates)"

definition tick ::
  "real \<Rightarrow> 'cb PlayerRegistry
     \<Rightarrow> 'cb PlayerRegistry \<times> ('cb \<times> PlayerPositionUpdate list \<times> real) option" where
  "tick now r =
     (case onBroadcast r of
        None \<Rightarrow> (r, None)
      | Some cb \<Rightarrow>
          if length (players r) = 0 then (r, None)
          else
            (let serverTime = now;
                 (players', updates) = tick_loop (players r) [] []
             in (r\<lparr> players := players' \<rparr>,
                 if length updates > 0 then Some (cb, updates, serverTime) else None)))"

subsection \<open>Wire protocol (\<^verbatim>\<open>src/lib/websocket/protocol.ts\<close>)\<close>

text \<open>
  A JavaScript number, as far as the JSON text of a message can tell numbers apart. A
  finite number other than zero is held the way \<^verbatim>\<open>Number::toString\<close> (ECMA-262,
  6.1.6.1.20) reads it: \<open>Decimal neg ds n\<close> is the number with sign \<open>neg\<close> whose shortest
  decimal that reads back as the same double has the digits \<open>ds = d\<^sub>1 \<dots> d\<^sub>k\<close> and the
  value \<open>0.d\<^sub>1 \<dots> d\<^sub>k \<times> 10\<^sup>n\<close>; 1700000000000 is \<open>Decimal False [1, 7] 13\<close> and 0.5
  is \<open>Decimal False [5] 0\<close>. \<open>Zero\<close> is both zeros, which \<^verbatim>\<open>===\<close> identifies and
  \<^verbatim>\<open>JSON.stringify\<close> prints alike. \<open>NaN\<close>, \<open>PosInfinity\<close> and \<open>NegInfinity\<close> are the
  three numbers that are not finite; \<^verbatim>\<open>typeof\<close> calls them \<^verbatim>\<open>'number'\<close> as well.

  \<open>finite_number\<close> holds of the representations of the finite doubles: digits \<open>0..9\<close>
  without a leading or trailing zero, at most 17 of them, and an exponent within the
  range of a double.
\<close>

datatype jsnum = Zero | Decimal bool "nat list" int | NaN | PosInfinity | NegInfinity



text \<open>
  The value of a JavaScript expression, as far as JSON reaches. An object is the list
  of its own properties in the order in which JavaScript enumerates them.
\<close>

datatype jsval =
    JUndefined
  | JNull
  | JBoolean bool
  | JNumber jsnum
  | JString string
  | JArray "jsval list"
  | JObject "(string \<times> jsval) list"

datatype js_exception = SyntaxError | TypeError

fun typeof :: "jsval \<Rightarrow> string" where
  "typeof JUndefined = ''undefined''"
| "typeof JNull = ''object''"
| "typeof (JBoolean b) = ''boolean''"
| "typeof (JNumber n) = ''number''"
| "typeof (JString s) = ''string''"
| "typeof (JArray vs) = ''object''"
| "typeof (JObject props) = ''object''"

fun getProperty :: "jsval \<Rightarrow> string \<Rightarrow> js_exception + jsval" where
  \<comment> \<open>\<^verbatim>\<open>v.k\<close> for the property names \<^verbatim>\<open>type\<close>, \<^verbatim>\<open>payload\<close>, \<^verbatim>\<open>timestamp\<close> and
      \<^verbatim>\<open>senderId\<close>, which no array, string, number or boolean has\<close>
  "getProperty JUndefined k = Inl TypeError"
| "getProperty JNull k = Inl TypeError"
| "getProperty (JObject props) k =
     Inr (case map_of props k of Some v \<Rightarrow> v | None \<Rightarrow> JUndefined)"
| "getProperty v k = Inr JUndefined"

fun hasProperty :: "string \<Rightarrow> jsval \<Rightarrow> js_exception + bool" where
  \<comment> \<open>\<^verbatim>\<open>k in v\<close>, for the same property names; a type error unless \<open>v\<close> is an object\<close>
  "hasProperty k (JObject props) = Inr (k \<in> set (map fst props))"
| "hasProperty k (JArray vs) = Inr False"
| "hasProperty k v = Inl TypeError"

text \<open>
  \<^verbatim>\<open>JSON.parse\<close> and \<^verbatim>\<open>JSON.stringify\<close> belong to the JavaScript runtime and are
  parameters of the two functions of \<^verbatim>\<open>protocol.ts\<close>: \<open>JSON_parse\<close> gives the parsed
  value or the exception it throws, \<open>JSON_stringify\<close> the text, or \<open>None\<close> where
  \<^verbatim>\<open>JSON.stringify\<close> returns \<^verbatim>\<open>undefined\<close>. The next subsection defines the two
  functions of the runtime themselves.

  \<open>parseMessage_try\<close> is the body of the \<^verbatim>\<open>try\<close> block, with the short-circuit
  evaluation of \<^verbatim>\<open>&&\<close> written out; \<open>parseMessage\<close> adds the \<^verbatim>\<open>catch\<close>. The result
  \<open>Inr None\<close> is \<^verbatim>\<open>null\<close>, \<open>Inl e\<close> would be an exception leaving the function.
\<close>

definition parseMessage_try ::
  "(string \<Rightarrow> js_exception + jsval) \<Rightarrow> string \<Rightarrow> js_exception + jsval option" where
  "parseMessage_try JSON_parse data =
     (case JSON_parse data of
        Inl e \<Rightarrow> Inl e
      | Inr parsed \<Rightarrow>
          if typeof parsed = ''object'' then
            if parsed \<noteq> JNull then
              (case getProperty parsed ''type'' of
                 Inl e \<Rightarrow> Inl e
               | Inr ty \<Rightarrow>
                   if typeof ty = ''string'' then
                     (case hasProperty ''payload'' parsed of
                        Inl e \<Rightarrow> Inl e
                      | Inr has_payload \<Rightarrow>
                          if has_payload then
                            (case getProperty parsed ''timestamp'' of
                               Inl e \<Rightarrow> Inl e
                             | Inr ts \<Rightarrow>
                                 if typeof ts = ''number'' then
                                   (case getProperty parsed ''senderId'' of
                                      Inl e \<Rightarrow> Inl e
                                    | Inr sid \<Rightarrow>
                                        if typeof sid = ''string''
                                        then Inr (Some parsed)
                                        else Inr None)
                                 else Inr None)
                          else Inr None)
                   else Inr None)
            else Inr None
          else Inr None)"

definition parseMessage ::
  "(string \<Rightarrow> js_exception + jsval) \<Rightarrow> string \<Rightarrow> js_exception + jsval option" where
  "parseMessage JSON_parse data =
     (case parseMessage_try JSON_parse data of
        Inl e \<Rightarrow> Inr None
      | Inr result \<Rightarrow> Inr result)"


subsection \<open>\<^verbatim>\<open>JSON.stringify\<close> and \<^verbatim>\<open>JSON.parse\<close> of the runtime (ECMA-262, 25.5)\<close>

text \<open>
  Numbers. \<open>NumberToString\<close> is \<^verbatim>\<open>Number::toString\<close> in radix 10 with its four
  formats: an integer padded with zeros (\<open>k \<le> n \<le> 21\<close>), a decimal point inside the
  digits (\<open>0 < n \<le> 21\<close>), leading zeros after \<^verbatim>\<open>0.\<close> (\<open>-6 < n \<le> 0\<close>), and the
  exponential form otherwise.
\<close>

definition digit_char :: "nat \<Rightarrow> char" where
  "digit_char d = char_of (48 + d)"

definition is_digit :: "char \<Rightarrow> bool" where
  "is_digit c = (48 \<le> (of_char c :: nat) \<and> (of_char c :: nat) \<le> 57)"

definition digit_value :: "char \<Rightarrow> nat" where
  "digit_value c = of_char c - 48"



definition number_of_digits :: "nat list \<Rightarrow> nat" where
  "number_of_digits ds = foldl (\<lambda>a d. 10 * a + d) 0 ds"


text \<open>
  A number of a JSON text is \<^verbatim>\<open>-\<close>\<open>?\<close> \<^verbatim>\<open>int\<close> \<^verbatim>\<open>frac\<close>\<open>?\<close> \<^verbatim>\<open>exp\<close>\<open>?\<close>: an integer part
  without a superfluous leading zero, an optional fraction of at least one digit, an
  optional exponent of at least one digit. \<open>canonical_number\<close> strips the zeros at both
  ends of the digits read and adjusts the exponent. The digits are kept as they are
  written: a literal of more than 17 significant digits, which JavaScript rounds to
  the nearest double, is not rounded. A literal beyond the range of a double becomes
  an infinity or zero; the boundary is drawn at the decimal exponent.
\<close>

definition canonical_number :: "bool \<Rightarrow> nat list \<Rightarrow> int \<Rightarrow> jsnum" where
  "canonical_number neg ds n =
     (let ds1 = dropWhile (\<lambda>d. d = 0) ds;
          ds2 = rev (dropWhile (\<lambda>d. d = 0) (rev ds1))
      in if ds2 = [] then Zero
         else Decimal neg ds2 (n - int (length ds - length ds1)))"

definition to_double_range :: "jsnum \<Rightarrow> jsnum" where
  "to_double_range num =
     (case num of
        Decimal neg ds n \<Rightarrow>
          if 309 < n then (if neg then NegInfinity else PosInfinity)
          else if n < -323 then Zero
          else num
      | _ \<Rightarrow> num)"

definition parse_fraction :: "string \<Rightarrow> (string \<times> string) option" where
  "parse_fraction s =
     (if s \<noteq> [] \<and> hd s = CHR ''.'' then
        (let fp = takeWhile is_digit (tl s) in
         if fp = [] then None else Some (fp, dropWhile is_digit (tl s)))
      else Some ([], s))"

definition parse_exponent :: "string \<Rightarrow> (int \<times> string) option" where
  "parse_exponent s =
     (if s \<noteq> [] \<and> (hd s = CHR ''e'' \<or> hd s = CHR ''E'') then
        (let s1 = tl s;
             negative = (s1 \<noteq> [] \<and> hd s1 = CHR ''-'');
             s2 = (if s1 \<noteq> [] \<and> (hd s1 = CHR ''-'' \<or> hd s1 = CHR ''+'') then tl s1 else s1);
             ep = takeWhile is_digit s2
         in if ep = [] then None
            else
              (let ex = int (number_of_digits (map digit_value ep))
               in Some (if negative then - ex else ex, dropWhile is_digit s2)))
      else Some (0, s))"

definition parse_unsigned :: "bool \<Rightarrow> string \<Rightarrow> (jsnum \<times> string) option" where
  "parse_unsigned neg s =
     (let ip = takeWhile is_digit s in
      if ip = [] \<or> (length ip > 1 \<and> hd ip = CHR ''0'') then None
      else
        (case parse_fraction (dropWhile is_digit s) of
           None \<Rightarrow> None
         | Some (fp, s1) \<Rightarrow>
             (case parse_exponent s1 of
                None \<Rightarrow> None
              | Some (ex, s2) \<Rightarrow>
                  Some (to_double_range
                          (canonical_number neg (map digit_value (ip @ fp))
                             (int (length ip) + ex)),
                        s2))))"

definition parse_number :: "string \<Rightarrow> (jsnum \<times> string) option" where
  "parse_number s =
     (if s \<noteq> [] \<and> hd s = CHR ''-'' then parse_unsigned True (tl s)
      else parse_unsigned False s)"


definition is_hex :: "char \<Rightarrow> bool" where
  "is_hex c =
     (let n = (of_char c :: nat)
      in (48 \<le> n \<and> n \<le> 57) \<or> (97 \<le> n \<and> n \<le> 102) \<or> (65 \<le> n \<and> n \<le> 70))"

definition hex_value :: "char \<Rightarrow> nat" where
  "hex_value c =
     (let n = (of_char c :: nat)
      in if n \<le> 57 then n - 48 else if 97 \<le> n then n - 87 else n - 55)"




definition unescape :: "char \<Rightarrow> char option" where
  "unescape e =
     (if e = CHR 0x22 then Some (CHR 0x22)
      else if e = CHR 0x5C then Some (CHR 0x5C)
      else if e = CHR ''/'' then Some (CHR ''/'')
      else if e = CHR ''b'' then Some (CHR 0x08)
      else if e = CHR ''f'' then Some (CHR 0x0C)
      else if e = CHR ''n'' then Some (CHR 0x0A)
      else if e = CHR ''r'' then Some (CHR 0x0D)
      else if e = CHR ''t'' then Some (CHR 0x09)
      else None)"

definition followed_by :: "char \<Rightarrow> (string \<times> string) option \<Rightarrow> (string \<times> string) option" where
  "followed_by c res = (case res of None \<Rightarrow> None | Some (s, r) \<Rightarrow> Some (c # s, r))"

fun parse_string_chars :: "string \<Rightarrow> (string \<times> string) option" where
  "parse_string_chars [] = None"
| "parse_string_chars (c # r) =
     (if c = CHR 0x22 then Some ([], r)
      else if c = CHR 0x5C then
        (case r of
           [] \<Rightarrow> None
         | e # r1 \<Rightarrow>
             if e = CHR ''u'' then
               (case r1 of
                  h1 # h2 # h3 # h4 # r2 \<Rightarrow>
                    if is_hex h1 \<and> is_hex h2 \<and> is_hex h3 \<and> is_hex h4 then
                      (let n = 4096 * hex_value h1 + 256 * hex_value h2 +
                               16 * hex_value h3 + hex_value h4
                       in if n < 256 then followed_by (char_of n) (parse_string_chars r2)
                          else None)
                    else None
                | _ \<Rightarrow> None)
             else
               (case unescape e of
                  None \<Rightarrow> None
                | Some ch \<Rightarrow> followed_by ch (parse_string_chars r1)))
      else if (of_char c :: nat) < 32 then None
      else followed_by c (parse_string_chars r))"

definition parse_string :: "string \<Rightarrow> (string \<times> string) option" where
  "parse_string s =
     (case s of
        [] \<Rightarrow> None
      | c # r \<Rightarrow> if c = CHR 0x22 then parse_string_chars r else None)"

text \<open>
  Objects. JavaScript enumerates the own properties of an object with the array
  indices first (the canonical decimal strings of \<open>0 \<dots> 2\<^sup>3\<^sup>2 - 2\<close>), in ascending
  numeric order, and then the other keys in the order of their creation.
  \<open>CreateDataProperty\<close> is what \<^verbatim>\<open>JSON.parse\<close> does with each member it reads: a key
  that is already there keeps its place and takes the new value, a new array index
  goes to its numeric place, any other new key goes to the end. \<open>ordered_keys\<close> holds of
  the key lists in enumeration order.
\<close>

definition index_value :: "string \<Rightarrow> nat" where
  "index_value k = number_of_digits (map digit_value k)"

definition is_array_index :: "string \<Rightarrow> bool" where
  "is_array_index k =
     (k \<noteq> [] \<and> list_all is_digit k \<and> (length k = 1 \<or> hd k \<noteq> CHR ''0'') \<and>
      index_value k < 4294967295)"


definition CreateDataProperty ::
  "string \<Rightarrow> jsval \<Rightarrow> (string \<times> jsval) list \<Rightarrow> (string \<times> jsval) list" where
  "CreateDataProperty k v props =
     (if k \<in> set (map fst props) then AList.update k v props
      else if is_array_index k then
        (let earlier = (\<lambda>p. is_array_index (fst p) \<and> index_value (fst p) < index_value k)
         in takeWhile earlier props @ (k, v) # dropWhile earlier props)
      else props @ [(k, v)])"




text \<open>
  The parser follows the JSON grammar by recursive descent, with the four white space
  characters of JSON allowed around every token. Its first argument bounds the calls:
  \<open>ECMAScript_JSON_parse\<close> starts with one more than the length of the text, and every
  text that \<^verbatim>\<open>JSON.stringify\<close> writes for a JSON-representable value is parsed within
  that bound (lemma \<open>parse_value_printed\<close>). \<open>None\<close> is a syntax error.
\<close>

definition is_ws :: "char \<Rightarrow> bool" where
  "is_ws c = (c = CHR 0x09 \<or> c = CHR 0x0A \<or> c = CHR 0x0D \<or> c = CHR 0x20)"

definition skip_ws :: "string \<Rightarrow> string" where
  "skip_ws s = dropWhile is_ws s"

definition parse_literal :: "string \<Rightarrow> jsval \<Rightarrow> string \<Rightarrow> (jsval \<times> string) option" where
  "parse_literal word v s =
     (if take (length word) s = word then Some (v, drop (length word) s) else None)"

fun parse_value :: "nat \<Rightarrow> string \<Rightarrow> (jsval \<times> string) option"
  and parse_elements :: "nat \<Rightarrow> string \<Rightarrow> jsval list \<Rightarrow> (jsval \<times> string) option"
  and parse_members :: "nat \<Rightarrow> string \<Rightarrow> (string \<times> jsval) list \<Rightarrow> (jsval \<times> string) option"
where
  "parse_value 0 s = None"
| "parse_value (Suc f) s =
     (case skip_ws s of
        [] \<Rightarrow> None
      | c # r \<Rightarrow>
          if c = CHR ''n'' then parse_literal ''null'' JNull (c # r)
          else if c = CHR ''t'' then parse_literal ''true'' (JBoolean True) (c # r)
          else if c = CHR ''f'' then parse_literal ''false'' (JBoolean False) (c # r)
          else if c = CHR 0x22 then
            (case parse_string (c # r) of
               None \<Rightarrow> None
             | Some (str, r1) \<Rightarrow> Some (JString str, r1))
          else if c = CHR ''['' then
            (case skip_ws r of
               [] \<Rightarrow> None
             | c1 # r1 \<Rightarrow>
                 if c1 = CHR '']'' then Some (JArray [], r1) else parse_elements f r [])
          else if c = CHR ''{'' then
            (case skip_ws r of
               [] \<Rightarrow> None
             | c1 # r1 \<Rightarrow>
                 if c1 = CHR ''}'' then Some (JObject [], r1) else parse_members f r [])
          else
            (case parse_number (c # r) of
               None \<Rightarrow> None
             | Some (num, r1) \<Rightarrow> Some (JNumber num, r1)))"
| "parse_elements 0 s acc = None"
| "parse_elements (Suc f) s acc =
     (case parse_value f s of
        None \<Rightarrow> None
      | Some (v, r) \<Rightarrow>
          (case skip_ws r of
             [] \<Rightarrow> None
           | c # r1 \<Rightarrow>
               if c = CHR '','' then parse_elements f r1 (acc @ [v])
               else if c = CHR '']'' then Some (JArray (acc @ [v]), r1)
               else None))"
| "parse_members 0 s acc = None"
| "parse_members (Suc f) s acc =
     (case parse_string (skip_ws s) of
        None \<Rightarrow> None
      | Some (k, r) \<Rightarrow>
          (case skip_ws r of
             [] \<Rightarrow> None
           | c # r1 \<Rightarrow>
               if c \<noteq> CHR '':'' then None
               else
                 (case parse_value f r1 of
                    None \<Rightarrow> None
                  | Some (v, r2) \<Rightarrow>
                      (case skip_ws r2 of
                         [] \<Rightarrow> None
                       | c2 # r3 \<Rightarrow>
                           if c2 = CHR '','' then
                             parse_members f r3 (CreateDataProperty k v acc)
                           else if c2 = CHR ''}'' then
                             Some (JObject (CreateDataProperty k v acc), r3)
                           else None))))"

declare parse_value.simps [simp del] parse_elements.simps [simp del] parse_members.simps [simp del]

definition ECMAScript_JSON_parse :: "string \<Rightarrow> js_exception + jsval" where
  "ECMAScript_JSON_parse s =
     (case parse_value (Suc (length s)) s of
        None \<Rightarrow> Inl SyntaxError
      | Some (v, r) \<Rightarrow> if skip_ws r = [] then Inr v else Inl SyntaxError)"

text \<open>
  The envelope in the words of the specification: an object with a string \<open>type\<close>, a
  \<open>payload\<close> that is present, a numeric \<open>timestamp\<close> and a string \<open>senderId\<close>. A value
  is JSON-representable when it holds no \<^verbatim>\<open>undefined\<close> and no number that is not
  finite, and every object in it lists distinct keys in enumeration order, as every
  JavaScript object does.
\<close>

definition field :: "jsval \<Rightarrow> string \<Rightarrow> jsval option" where
  "field v k = (case v of JObject props \<Rightarrow> map_of props k | _ \<Rightarrow> None)"

definition has_string_type :: "jsval \<Rightarrow> bool" where
  "has_string_type v = (case field v ''type'' of Some (JString s) \<Rightarrow> True | _ \<Rightarrow> False)"

definition has_payload :: "jsval \<Rightarrow> bool" where
  "has_payload v = (case field v ''payload'' of Some p \<Rightarrow> True | None \<Rightarrow> False)"

definition has_numeric_timestamp :: "jsval \<Rightarrow> bool" where
  "has_numeric_timestamp v =
     (case field v ''timestamp'' of Some (JNumber n) \<Rightarrow> True | _ \<Rightarrow> False)"

definition has_string_senderId :: "jsval \<Rightarrow> bool" where
  "has_string_senderId v =
     (case field v ''senderId'' of Some (JString s) \<Rightarrow> True | _ \<Rightarrow> False)"



definition all_four_fields :: "jsval \<Rightarrow> bool" where
  "all_four_fields v =
     (has_string_type v \<and> has_payload v \<and> has_numeric_timestamp v \<and> has_string_senderId v)"




definition delimited :: "string \<Rightarrow> bool" where
  "delimited r = (r = [] \<or> hd r = CHR '','' \<or> hd r = CHR '']'' \<or> hd r = CHR ''}'')"


subsection \<open>Remote players on the client (\<^verbatim>\<open>RemotePlayer\<close>)\<close>

record PositionSnapshot =
  snap_position :: Vector3
  snap_rotation :: Vector3
  snap_timestamp :: real

definition INTERPOLATION_DELAY :: real where
  "INTERPOLATION_DELAY = 100"

definition MAX_BUFFER_SIZE :: nat where
  "MAX_BUFFER_SIZE = 10"

definition LERP_SPEED :: real where
  "LERP_SPEED = 15 / 100"

text \<open>
  Of the three.js objects only the numbers are kept: \<open>targetPosition\<close> and
  \<open>targetRotation\<close> are the components of the \<^verbatim>\<open>THREE.Vector3\<close> and
  \<^verbatim>\<open>THREE.Euler\<close>, \<open>mesh_position\<close> and \<open>mesh_rotation\<close> those of
  \<^verbatim>\<open>mesh.position\<close> and \<^verbatim>\<open>mesh.rotation\<close>.
\<close>

record RemotePlayer =
  remote_id :: string
  remote_state :: PlayerState
  positionBuffer :: "PositionSnapshot list"
  targetPosition :: Vector3
  targetRotation :: Vector3
  mesh_position :: Vector3
  mesh_rotation :: Vector3

definition newRemotePlayer :: "PlayerState \<Rightarrow> RemotePlayer" where
  "newRemotePlayer st =
     \<lparr> remote_id = player_id st, remote_state = st, positionBuffer = [],
       targetPosition = \<lparr> x = x (position st), y = y (position st), z = z (position st) \<rparr>,
       targetRotation = \<lparr> x = x (rotation st), y = y (rotation st), z = z (rotation st) \<rparr>,
       mesh_position = \<lparr> x = x (position st), y = y (position st), z = z (position st) \<rparr>,
       mesh_rotation = \<lparr> x = x (rotation st), y = y (rotation st), z = z (rotation st) \<rparr> \<rparr>"

fun shiftWhileOver :: "nat \<Rightarrow> 'a list \<Rightarrow> 'a list" where
  \<comment> \<open>\<^verbatim>\<open>while (buffer.length > n) buffer.shift()\<close>\<close>
  "shiftWhileOver n [] = []"
| "shiftWhileOver n (s # rest) =
     (if length (s # rest) > n then shiftWhileOver n rest else s # rest)"

definition pushPositionUpdate :: "PlayerPositionUpdate \<Rightarrow> RemotePlayer \<Rightarrow> RemotePlayer" where
  "pushPositionUpdate u rp =
     rp\<lparr> positionBuffer :=
          shiftWhileOver MAX_BUFFER_SIZE
            (positionBuffer rp @
               [\<lparr> snap_position = update_position u, snap_rotation = update_rotation u,
                  snap_timestamp = update_timestamp u \<rparr>]) \<rparr>"

definition lerp :: "real \<Rightarrow> real \<Rightarrow> real \<Rightarrow> real" where
  \<comment> \<open>\<^verbatim>\<open>THREE.MathUtils.lerp(x, y, t)\<close> of the three.js library\<close>
  "lerp a b t = (1 - t) * a + t * b"

definition Vector3_lerp :: "Vector3 \<Rightarrow> Vector3 \<Rightarrow> real \<Rightarrow> Vector3" where
  \<comment> \<open>\<^verbatim>\<open>this.lerp(v, alpha)\<close> of \<^verbatim>\<open>THREE.Vector3\<close>\<close>
  "Vector3_lerp this v alpha =
     \<lparr> x = x this + (x v - x this) * alpha,
       y = y this + (y v - y this) * alpha,
       z = z this + (z v - z this) * alpha \<rparr>"

fun findBracket ::
  "real \<Rightarrow> PositionSnapshot list \<Rightarrow> (PositionSnapshot \<times> PositionSnapshot) option" where
  \<comment> \<open>the scan for the first adjacent pair around the render time\<close>
  "findBracket renderTime (a # b # rest) =
     (if snap_timestamp a \<le> renderTime \<and> snap_timestamp b \<ge> renderTime
      then Some (a, b)
      else findBracket renderTime (b # rest))"
| "findBracket renderTime _ = None"

fun evictOld :: "real \<Rightarrow> PositionSnapshot list \<Rightarrow> PositionSnapshot list" where
  \<comment> \<open>the clean-up loop at the end of \<^verbatim>\<open>update\<close>\<close>
  "evictOld renderTime [] = []"
| "evictOld renderTime (s # rest) =
     (if snap_timestamp s < renderTime - 1000 then evictOld renderTime rest else s # rest)"

definition smooth :: "real \<Rightarrow> RemotePlayer \<Rightarrow> RemotePlayer" where
  \<comment> \<open>the catch-up of the mesh towards the target, then the clean-up of the buffer\<close>
  "smooth renderTime rp =
     rp\<lparr> mesh_position := Vector3_lerp (mesh_position rp) (targetPosition rp) LERP_SPEED,
         mesh_rotation :=
           \<lparr> x = x (mesh_rotation rp) + (x (targetRotation rp) - x (mesh_rotation rp)) * LERP_SPEED,
             y = y (mesh_rotation rp) + (y (targetRotation rp) - y (mesh_rotation rp)) * LERP_SPEED,
             z = z (mesh_rotation rp) + (z (targetRotation rp) - z (mesh_rotation rp)) * LERP_SPEED \<rparr>,
         positionBuffer := evictOld renderTime (positionBuffer rp) \<rparr>"

datatype number_fault = NaN_factor

text \<open>
  \<^verbatim>\<open>update(_deltaTime)\<close> with \<open>now\<close> the value of \<^verbatim>\<open>Date.now()\<close>. When the bracketing
  snapshots carry the same timestamp, \<^verbatim>\<open>elapsed / duration\<close> is \<^verbatim>\<open>0 / 0\<close>, which is
  \<^verbatim>\<open>NaN\<close> in JavaScript (and \<open>0\<close> in HOL): the targets and the mesh become \<^verbatim>\<open>NaN\<close>,
  which is the outcome \<open>Inl NaN_factor\<close> here.
\<close>

definition update :: "real \<Rightarrow> real \<Rightarrow> RemotePlayer \<Rightarrow> number_fault + RemotePlayer" where
  "update now deltaTime rp =
     (let renderTime = now - INTERPOLATION_DELAY in
      if length (positionBuffer rp) \<ge> 2 then
        (case findBracket renderTime (positionBuffer rp) of
           Some (prevSnapshot, nextSnapshot) \<Rightarrow>
             (let duration = snap_timestamp nextSnapshot - snap_timestamp prevSnapshot;
                  elapsed = renderTime - snap_timestamp prevSnapshot
              in if duration = 0 then Inl NaN_factor
                 else
                   (let t = min 1 (max 0 (elapsed / duration)) in
                    Inr (smooth renderTime
                      (rp\<lparr> targetPosition :=
                             \<lparr> x = lerp (x (snap_position prevSnapshot)) (x (snap_position nextSnapshot)) t,
                               y = lerp (y (snap_position prevSnapshot)) (y (snap_position nextSnapshot)) t,
                               z = lerp (z (snap_position prevSnapshot)) (z (snap_position nextSnapshot)) t \<rparr>,
                           targetRotation :=
                             \<lparr> x = lerp (x (snap_rotation prevSnapshot)) (x (snap_rotation nextSnapshot)) t,
                               y = lerp (y (snap_rotation prevSnapshot)) (y (snap_rotation nextSnapshot)) t,
                               z = lerp (z (snap_rotation prevSnapshot)) (z (snap_rotation nextSnapshot)) t \<rparr> \<rparr>))))
         | None \<Rightarrow> Inr (smooth renderTime rp))
      else if length (positionBuffer rp) = 1 then
        (let snapshot = hd (positionBuffer rp) in
         Inr (smooth renderTime
           (rp\<lparr> targetPosition :=
                  \<lparr> x = x (snap_position snapshot), y = y (snap_position snapshot),
                    z = z (snap_position snapshot) \<rparr>,
                targetRotation :=
                  \<lparr> x = x (snap_rotation snapshot), y = y (snap_rotation snapshot),
                    z = z (snap_rotation snapshot) \<rparr> \<rparr>)))
      else Inr (smooth renderTime rp))"

text \<open>
  The condition of the gap case in the words of the specification: no adjacent pair
  \<open>(prev, next)\<close> of the buffer has \<open>prev.timestamp \<le> renderTime \<le> next.timestamp\<close>.
\<close>

definition brackets :: "real \<Rightarrow> PositionSnapshot \<Rightarrow> PositionSnapshot \<Rightarrow> bool" where
  "brackets renderTime prev nxt =
     (snap_timestamp prev \<le> renderTime \<and> renderTime \<le> snap_timestamp nxt)"

definition no_adjacent_pair_brackets :: "real \<Rightarrow> PositionSnapshot list \<Rightarrow> bool" where
  "no_adjacent_pair_brackets renderTime buf =
     list_all (\<lambda>(prev, nxt). \<not> brackets renderTime prev nxt) (zip buf (tl buf))"

definition snapshot_at :: "real \<Rightarrow> Vector3 \<Rightarrow> Vector3 \<Rightarrow> PositionSnapshot" where
  "snapshot_at t pos rot = \<lparr> snap_position = pos, snap_rotation = rot, snap_timestamp = t \<rparr>"

definition vec :: "real \<Rightarrow> real \<Rightarrow> real \<Rightarrow> Vector3" where
  "vec a b c = \<lparr> x = a, y = b, z = c \<rparr>"


subsection \<open>Typed messages\<close>

text \<open>
  The handlers read a parsed envelope through the TypeScript interface that belongs to
  its \<^verbatim>\<open>type\<close> string (an unchecked cast). \<open>Payload\<close> is the union of the payload
  shapes of those interfaces; a handler that finds another shape than the one it casts
  to yields the fault \<open>IllTypedPayload\<close>.
\<close>

datatype ChatType = chat | system | whisper | emote

record ChatMessage =
  chat_id :: string
  chat_senderId :: string
  senderName :: string
  content :: string
  chat_timestamp :: real
  chat_type :: ChatType
  targetId :: "string option"
  targetName :: "string option"

datatype Payload =
    PingPayload real
  | PongPayload real real
  | ConnectPayload string real
  | DisconnectPayload string "string option"
  | ErrorPayload string string
  | PlayerJoinPayload PlayerState
  | PlayerLeavePayload string "string option"
  | PlayerStatePayload "PlayerState list"
  | PlayerPositionPayload PlayerPositionUpdate
  | PlayerBatchPositionPayload "PlayerPositionUpdate list" real
  | RequestFullStatePayload
  | PlayerStatusChangePayload string PlayerStatus
  | ChatSendPayload string
  | ChatWhisperPayload "string option" "string option" string
  | ChatEmotePayload string
  | ChatMessagePayload ChatMessage
  | ChatErrorPayload string string
  | OtherPayload jsval

record BaseMessage =
  msg_type :: string
  payload :: Payload
  timestamp :: real
  senderId :: string

datatype fault = IllTypedPayload | TypeError_thrown

definition PING :: string where "PING = ''system:ping''"
definition PONG :: string where "PONG = ''system:pong''"
definition CONNECT :: string where "CONNECT = ''system:connect''"
definition DISCONNECT :: string where "DISCONNECT = ''system:disconnect''"
definition ERROR :: string where "ERROR = ''system:error''"
definition ACK :: string where "ACK = ''system:ack''"

definition PLAYER_JOIN :: string where "PLAYER_JOIN = ''player:join''"
definition PLAYER_LEAVE :: string where "PLAYER_LEAVE = ''player:leave''"
definition PLAYER_STATE :: string where "PLAYER_STATE = ''player:state''"
definition PLAYER_POSITION :: string where "PLAYER_POSITION = ''player:position''"
definition PLAYER_BATCH_POSITION :: string where
  "PLAYER_BATCH_POSITION = ''player:batch_position''"
definition REQUEST_FULL_STATE :: string where
  "REQUEST_FULL_STATE = ''player:request_full_state''"
definition PLAYER_STATUS_CHANGE :: string where
  "PLAYER_STATUS_CHANGE = ''player:status_change''"

definition CHAT_SEND :: string where "CHAT_SEND = ''chat:send''"
definition CHAT_WHISPER :: string where "CHAT_WHISPER = ''chat:whisper''"
definition CHAT_EMOTE :: string where "CHAT_EMOTE = ''chat:emote''"
definition CHAT_MESSAGE :: string where "CHAT_MESSAGE = ''chat:message''"
definition CHAT_SYSTEM :: string where "CHAT_SYSTEM = ''chat:system''"
definition CHAT_ERROR :: string where "CHAT_ERROR = ''chat:error''"

definition startsWith :: "string \<Rightarrow> string \<Rightarrow> bool" where
  "startsWith s p = (take (length p) s = p)"

definition isSystemMessage :: "BaseMessage \<Rightarrow> bool" where
  "isSystemMessage msg = startsWith (msg_type msg) ''system:''"

definition isPlayerMessage :: "BaseMessage \<Rightarrow> bool" where
  "isPlayerMessage msg = startsWith (msg_type msg) ''player:''"

definition isChatMessage :: "BaseMessage \<Rightarrow> bool" where
  "isChatMessage msg = startsWith (msg_type msg) ''chat:''"

definition createMessage :: "real \<Rightarrow> string \<Rightarrow> Payload \<Rightarrow> string \<Rightarrow> BaseMessage" where
  \<comment> \<open>\<open>now\<close> is \<^verbatim>\<open>Date.now()\<close>\<close>
  "createMessage now ty p sender =
     \<lparr> msg_type = ty, payload = p, timestamp = now, senderId = sender \<rparr>"

definition createChatMessage ::
  "string \<Rightarrow> real \<Rightarrow> string \<Rightarrow> string \<Rightarrow> string \<Rightarrow> ChatType
     \<Rightarrow> string option \<Rightarrow> string option \<Rightarrow> ChatMessage" where
  \<comment> \<open>\<open>generatedId\<close> is the result of \<^verbatim>\<open>generateChatId()\<close>, \<open>now\<close> is \<^verbatim>\<open>Date.now()\<close>\<close>
  "createChatMessage generatedId now sender name text ty tid tname =
     \<lparr> chat_id = generatedId, chat_senderId = sender, senderName = name, content = text,
       chat_timestamp = now, chat_type = ty, targetId = tid, targetName = tname \<rparr>"

definition playerJoin :: "string \<Rightarrow> string" where
  "playerJoin playerName = playerName @ '' joined the lounge''"

definition playerLeave :: "string \<Rightarrow> string" where
  "playerLeave playerName = playerName @ '' left the lounge''"

definition playerNotFound :: "string \<Rightarrow> string" where
  "playerNotFound name = ''Player '' @ [CHR 0x22] @ name @ [CHR 0x22] @ '' not found''"

subsection \<open>JavaScript strings\<close>

text \<open>
  A string is the list of its code units, as far as they fit a \<^typ>\<open>char\<close> (0 to 255).
  In that range the white space of \<^verbatim>\<open>\s\<close> and of \<^verbatim>\<open>trim\<close> is TAB, LF, VT, FF, CR,
  SPACE and NBSP, and \<^verbatim>\<open>toLowerCase\<close> moves A to Z and the capital letters of
  Latin-1 (0xC0 to 0xDE without the multiplication sign 0xD7) up by 32.
\<close>

definition isWhiteSpace :: "char \<Rightarrow> bool" where
  "isWhiteSpace c = (of_char c \<in> {9, 10, 11, 12, 13, 32, 160 :: nat})"

definition toLowerCase_char :: "char \<Rightarrow> char" where
  "toLowerCase_char c =
     (let n = (of_char c :: nat) in
      if (65 \<le> n \<and> n \<le> 90) \<or> (192 \<le> n \<and> n \<le> 222 \<and> n \<noteq> 215)
      then char_of (n + 32) else c)"

definition toLowerCase :: "string \<Rightarrow> string" where
  "toLowerCase s = map toLowerCase_char s"

definition trim :: "string \<Rightarrow> string" where
  "trim s = rev (dropWhile isWhiteSpace (rev (dropWhile isWhiteSpace s)))"

fun split_whitespace :: "string \<Rightarrow> string list" where
  \<comment> \<open>\<^verbatim>\<open>s.split(/\s+/)\<close>: the pieces between the maximal runs of white space; a run at
      the start or at the end leaves an empty piece there\<close>
  "split_whitespace [] = [[]]"
| "split_whitespace (c # cs) =
     (if isWhiteSpace c then
        (if cs \<noteq> [] \<and> isWhiteSpace (hd cs) then split_whitespace cs
         else [] # split_whitespace cs)
      else (case split_whitespace cs of
              piece # pieces \<Rightarrow> (c # piece) # pieces
            | [] \<Rightarrow> [[c]]))"

fun join :: "string list \<Rightarrow> string \<Rightarrow> string" where
  \<comment> \<open>\<^verbatim>\<open>parts.join(sep)\<close>\<close>
  "join [] sep = []"
| "join [p] sep = p"
| "join (p # q # ps) sep = p @ sep @ join (q # ps) sep"

definition truthy :: "string option \<Rightarrow> bool" where
  \<comment> \<open>a \<^verbatim>\<open>string | null | undefined\<close> in a condition: neither absent nor empty\<close>
  "truthy v = (case v of None \<Rightarrow> False | Some s \<Rightarrow> s \<noteq> [])"

subsection \<open>Connection manager of the client (\<^verbatim>\<open>LoungeClient\<close>)\<close>

datatype ConnectionState = disconnected | connecting | connected | reconnecting

record ClientConfig =
  url :: string
  autoReconnect :: bool
  reconnectInterval :: real
  maxReconnectAttempts :: real
  heartbeatInterval :: real
  heartbeatTimeout :: real

definition DEFAULT_CONFIG :: "string \<Rightarrow> ClientConfig" where
  "DEFAULT_CONFIG u =
     \<lparr> url = u, autoReconnect = True, reconnectInterval = 2000, maxReconnectAttempts = 10,
       heartbeatInterval = 25000, heartbeatTimeout = 5000 \<rparr>"

definition CloseCode_NORMAL :: nat where "CloseCode_NORMAL = 1000"
definition CloseCode_GOING_AWAY :: nat where "CloseCode_GOING_AWAY = 1001"
definition CloseCode_HEARTBEAT_TIMEOUT :: nat where "CloseCode_HEARTBEAT_TIMEOUT = 4000"

text \<open>
  \<open>socket\<close> is whether the field holds a socket; a timer field holds the delay or period
  of the pending timer. The state-change and message subscribers are not modelled.
\<close>

record LoungeClient =
  config :: ClientConfig
  socket :: bool
  clientId :: "string option"
  state :: ConnectionState
  reconnectAttempts :: nat
  reconnectTimer :: "real option"
  heartbeatTimer :: "real option"
  heartbeatTimeoutTimer :: "real option"
  pingSeq :: nat
  lastPongTime :: real

definition newLoungeClient :: "ClientConfig \<Rightarrow> LoungeClient" where
  "newLoungeClient cfg =
     \<lparr> config = cfg, socket = False, clientId = None, state = disconnected,
       reconnectAttempts = 0, reconnectTimer = None, heartbeatTimer = None,
       heartbeatTimeoutTimer = None, pingSeq = 0, lastPongTime = 0 \<rparr>"

definition setState :: "ConnectionState \<Rightarrow> LoungeClient \<Rightarrow> LoungeClient" where
  "setState newState c = (if state c = newState then c else c\<lparr> state := newState \<rparr>)"

definition clearHeartbeatTimeout :: "LoungeClient \<Rightarrow> LoungeClient" where
  "clearHeartbeatTimeout c = c\<lparr> heartbeatTimeoutTimer := None \<rparr>"

definition stopHeartbeat :: "LoungeClient \<Rightarrow> LoungeClient" where
  "stopHeartbeat c = clearHeartbeatTimeout (c\<lparr> heartbeatTimer := None \<rparr>)"

definition stopReconnect :: "LoungeClient \<Rightarrow> LoungeClient" where
  "stopReconnect c = c\<lparr> reconnectTimer := None, reconnectAttempts := 0 \<rparr>"

definition handleConnectionFailure :: "LoungeClient \<Rightarrow> LoungeClient" where
  "handleConnectionFailure c0 =
     (let c = c0\<lparr> socket := False, clientId := None \<rparr> in
      if real (reconnectAttempts c) \<ge> maxReconnectAttempts (config c)
      then setState disconnected c
      else
        (let c1 = c\<lparr> reconnectAttempts := reconnectAttempts c + 1 \<rparr>;
             delay = reconnectInterval (config c1) * min (real (reconnectAttempts c1)) 5
         in (setState reconnecting c1)\<lparr> reconnectTimer := Some delay \<rparr>))"

definition connect :: "bool \<Rightarrow> LoungeClient \<Rightarrow> LoungeClient" where
  \<comment> \<open>\<open>constructorThrows\<close>: whether \<^verbatim>\<open>new WebSocket(url)\<close> throws\<close>
  "connect constructorThrows c =
     (if state c = connected \<or> state c = connecting then c
      else
        (let c1 = setState (if state c = disconnected then connecting else reconnecting) c
         in if constructorThrows then handleConnectionFailure c1
            else c1\<lparr> socket := True \<rparr>))"

definition disconnect :: "LoungeClient \<Rightarrow> LoungeClient" where
  "disconnect c =
     setState disconnected ((stopReconnect (stopHeartbeat c))\<lparr> socket := False, clientId := None \<rparr>)"

definition socket_onopen :: "LoungeClient \<Rightarrow> LoungeClient" where
  "socket_onopen c = c\<lparr> reconnectAttempts := 0 \<rparr>"

definition socket_onclose :: "nat \<Rightarrow> LoungeClient \<Rightarrow> LoungeClient" where
  "socket_onclose code c0 =
     (let c = stopHeartbeat c0 in
      if autoReconnect (config c) \<and> code \<noteq> CloseCode_NORMAL \<and> state c \<noteq> disconnected
      then handleConnectionFailure c
      else setState disconnected (c\<lparr> clientId := None \<rparr>))"

definition failed_attempt :: "nat \<Rightarrow> LoungeClient \<Rightarrow> LoungeClient" where
  \<comment> \<open>one failed connection attempt: the pending reconnect timer, if any, calls
      \<^verbatim>\<open>connect()\<close>, and the socket then closes with \<open>code\<close>\<close>
  "failed_attempt code c = socket_onclose code (connect False c)"

definition client_send ::
  "real \<Rightarrow> LoungeClient \<Rightarrow> string \<Rightarrow> Payload \<Rightarrow> bool \<times> BaseMessage list" where
  \<comment> \<open>\<^verbatim>\<open>send(type, payload)\<close>: the result and what is written to the socket\<close>
  "client_send now c ty p =
     (if state c \<noteq> connected \<or> \<not> socket c \<or> \<not> truthy (clientId c) then (False, [])
      else (True, [createMessage now ty p (the (clientId c))]))"

subsection \<open>Chat manager (\<^verbatim>\<open>ChatManager\<close>)\<close>

definition MAX_MESSAGE_HISTORY :: nat where
  "MAX_MESSAGE_HISTORY = 100"

record CommandResult =
  handled :: bool
  error :: "string option"

text \<open>
  The manager's own state is the message history; the client it holds is an argument.
  The \<^verbatim>\<open>onMessage\<close> and \<^verbatim>\<open>onError\<close> callbacks are not modelled. A function that can
  send returns its result together with what it wrote to the socket.
\<close>

record ChatManager =
  messages :: "ChatMessage list"

definition addMessage :: "ChatMessage \<Rightarrow> ChatManager \<Rightarrow> ChatManager" where
  "addMessage message m =
     (let pushed = messages m @ [message] in
      m\<lparr> messages :=
           (if length pushed > MAX_MESSAGE_HISTORY
            then drop (length pushed - MAX_MESSAGE_HISTORY) pushed else pushed) \<rparr>)"

definition manager_handleChatMessage :: "ChatMessage \<Rightarrow> ChatManager \<Rightarrow> ChatManager" where
  "manager_handleChatMessage message m = addMessage message m"

definition sendChat ::
  "real \<Rightarrow> LoungeClient \<Rightarrow> string \<Rightarrow> CommandResult \<times> BaseMessage list" where
  "sendChat now c text =
     (if state c \<noteq> connected then (\<lparr> handled = False, error = Some ''Not connected'' \<rparr>, [])
      else
        (let (sent, out) = client_send now c CHAT_SEND (ChatSendPayload text)
         in (\<lparr> handled = sent, error = (if sent then None else Some ''Failed to send'') \<rparr>, out)))"

definition sendWhisper ::
  "real \<Rightarrow> LoungeClient \<Rightarrow> string \<Rightarrow> string \<Rightarrow> CommandResult \<times> BaseMessage list" where
  "sendWhisper now c target text =
     (if state c \<noteq> connected then (\<lparr> handled = False, error = Some ''Not connected'' \<rparr>, [])
      else if trim target = [] then
        (\<lparr> handled = False, error = Some ''No target specified'' \<rparr>, [])
      else if trim text = [] then
        (\<lparr> handled = False, error = Some ''No message content'' \<rparr>, [])
      else
        (let (sent, out) =
               client_send now c CHAT_WHISPER (ChatWhisperPayload None (Some (trim target)) (trim text))
         in (\<lparr> handled = sent, error = (if sent then None else Some ''Failed to send whisper'') \<rparr>,
             out)))"

definition sendEmote ::
  "real \<Rightarrow> LoungeClient \<Rightarrow> string \<Rightarrow> CommandResult \<times> BaseMessage list" where
  "sendEmote now c action =
     (if state c \<noteq> connected then (\<lparr> handled = False, error = Some ''Not connected'' \<rparr>, [])
      else if trim action = [] then
        (\<lparr> handled = False, error = Some ''No action specified'' \<rparr>, [])
      else
        (let (sent, out) = client_send now c CHAT_EMOTE (ChatEmotePayload (trim action))
         in (\<lparr> handled = sent, error = (if sent then None else Some ''Failed to send emote'') \<rparr>,
             out)))"

text \<open>
  \<open>handleCommand\<close>: \<open>numberToString\<close> is the decimal text that the template literal
  \<^verbatim>\<open>`help_${Date.now()}`\<close> makes of a number. \<^verbatim>\<open>parts[0].toLowerCase()\<close> would throw
  a type error on an empty array.
\<close>

definition handleCommand ::
  "(real \<Rightarrow> string) \<Rightarrow> real \<Rightarrow> LoungeClient \<Rightarrow> string \<Rightarrow> ChatManager
     \<Rightarrow> fault + (CommandResult \<times> BaseMessage list \<times> ChatManager)" where
  "handleCommand numberToString now c input m =
     (let parts = split_whitespace (drop 1 input) in
      case parts of
        [] \<Rightarrow> Inl TypeError_thrown
      | first # args \<Rightarrow>
          (let command = toLowerCase first in
           if command = ''me'' then
             (let action = join args '' '' in
              if action = [] then
                Inr (\<lparr> handled = False, error = Some ''Usage: /me <action>'' \<rparr>, [], m)
              else (let (res, out) = sendEmote now c action in Inr (res, out, m)))
           else if command = ''w'' \<or> command = ''whisper'' \<or> command = ''msg'' \<or> command = ''tell''
           then
             (if length args < 2 then
                Inr (\<lparr> handled = False, error = Some ''Usage: /w <player> <message>'' \<rparr>, [], m)
              else
                (let target = hd args;
                     message = join (tl args) '' '';
                     (res, out) = sendWhisper now c target message
                 in Inr (res, out, m)))
           else if command = ''help'' then
             (let helpMessage =
                    \<lparr> chat_id = ''help_'' @ numberToString now, chat_senderId = ''local'',
                      senderName = ''Help'',
                      content = ''Commands: /me <action>, /w <player> <message>, /help'',
                      chat_timestamp = now, chat_type = system,
                      targetId = None, targetName = None \<rparr>
              in Inr (\<lparr> handled = True, error = None \<rparr>, [], manager_handleChatMessage helpMessage m))
           else
             Inr (\<lparr> handled = False, error = Some (''Unknown command: /'' @ command) \<rparr>, [], m)))"

definition chat_send ::
  "(real \<Rightarrow> string) \<Rightarrow> real \<Rightarrow> LoungeClient \<Rightarrow> string \<Rightarrow> ChatManager
     \<Rightarrow> fault + (CommandResult \<times> BaseMessage list \<times> ChatManager)" where
  \<comment> \<open>\<^verbatim>\<open>ChatManager.send(input)\<close>\<close>
  "chat_send numberToString now c input m =
     (let trimmed = trim input in
      if trimmed = [] then Inr (\<lparr> handled = False, error = Some ''Empty message'' \<rparr>, [], m)
      else if startsWith trimmed ''/'' then handleCommand numberToString now c trimmed m
      else (let (res, out) = sendChat now c trimmed in Inr (res, out, m)))"

subsection \<open>Player manager of the client (\<^verbatim>\<open>PlayerManager\<close>)\<close>

text \<open>The scene and the callbacks of the manager are not modelled.\<close>

record PlayerManager =
  remotePlayers :: "(string, RemotePlayer) js_map"
  localPlayerId :: "string option"
  localPosition :: Vector3
  localRotation :: Vector3
  lastPositionUpdate :: real

definition newPlayerManager :: PlayerManager where
  "newPlayerManager =
     \<lparr> remotePlayers = [], localPlayerId = None,
       localPosition = \<lparr> x = 0, y = 0, z = 0 \<rparr>, localRotation = \<lparr> x = 0, y = 0, z = 0 \<rparr>,
       lastPositionUpdate = 0 \<rparr>"

definition addRemotePlayer :: "PlayerState \<Rightarrow> PlayerManager \<Rightarrow> PlayerManager" where
  "addRemotePlayer st pm =
     (if Map_get (remotePlayers pm) (player_id st) \<noteq> None then pm
      else pm\<lparr> remotePlayers := Map_set (player_id st) (newRemotePlayer st) (remotePlayers pm) \<rparr>)"

definition removeRemotePlayer :: "string \<Rightarrow> PlayerManager \<Rightarrow> PlayerManager" where
  "removeRemotePlayer i pm =
     (case Map_get (remotePlayers pm) i of
        Some player \<Rightarrow> pm\<lparr> remotePlayers := Map_delete i (remotePlayers pm) \<rparr>
      | None \<Rightarrow> pm)"

definition clearAllPlayers :: "PlayerManager \<Rightarrow> PlayerManager" where
  "clearAllPlayers pm = pm\<lparr> remotePlayers := [] \<rparr>"

fun addAllExceptLocal :: "PlayerState list \<Rightarrow> PlayerManager \<Rightarrow> PlayerManager" where
  "addAllExceptLocal [] pm = pm"
| "addAllExceptLocal (st # rest) pm =
     (if Some (player_id st) \<noteq> localPlayerId pm
      then addAllExceptLocal rest (addRemotePlayer st pm)
      else addAllExceptLocal rest pm)"

definition handleFullState :: "PlayerState list \<Rightarrow> PlayerManager \<Rightarrow> PlayerManager" where
  "handleFullState ps pm = addAllExceptLocal ps (clearAllPlayers pm)"

definition handlePlayerJoin :: "PlayerState \<Rightarrow> PlayerManager \<Rightarrow> PlayerManager" where
  "handlePlayerJoin st pm =
     (if Some (player_id st) = localPlayerId pm then pm else addRemotePlayer st pm)"

definition handlePlayerLeave :: "string \<Rightarrow> PlayerManager \<Rightarrow> PlayerManager" where
  "handlePlayerLeave i pm = removeRemotePlayer i pm"

fun handleBatchPositionUpdate :: "PlayerPositionUpdate list \<Rightarrow> PlayerManager \<Rightarrow> PlayerManager" where
  "handleBatchPositionUpdate [] pm = pm"
| "handleBatchPositionUpdate (u # rest) pm =
     (if Some (update_id u) = localPlayerId pm then handleBatchPositionUpdate rest pm
      else
        (case Map_get (remotePlayers pm) (update_id u) of
           Some player \<Rightarrow>
             handleBatchPositionUpdate rest
               (pm\<lparr> remotePlayers :=
                     Map_set (update_id u) (pushPositionUpdate u player) (remotePlayers pm) \<rparr>)
         | None \<Rightarrow> handleBatchPositionUpdate rest pm))"

definition onStateChange :: "LoungeClient \<Rightarrow> ConnectionState \<Rightarrow> PlayerManager \<Rightarrow> PlayerManager" where
  \<comment> \<open>the state-change subscriber that tracks the local player id\<close>
  "onStateChange c st pm =
     (if st = connected then pm\<lparr> localPlayerId := clientId c \<rparr>
      else if st = disconnected then (clearAllPlayers pm)\<lparr> localPlayerId := None \<rparr>
      else pm)"

subsection \<open>Lounge server (\<^verbatim>\<open>LoungeServer\<close>)\<close>

datatype ReadyState = WS_CONNECTING | WS_OPEN | WS_CLOSING | WS_CLOSED

text \<open>
  \<open>readyState\<close> is \<^verbatim>\<open>socket.readyState\<close> of the connection's socket. A handler is
  given the connection object its closure holds; where it assigns to a field of that
  object, the entry of the client map under the object's id is updated.
\<close>

record ClientConnection =
  conn_id :: string
  readyState :: ReadyState
  isAlive :: bool
  connectedAt :: real
  lastPingSeq :: real
  conn_username :: string
  metadata :: "(string \<times> jsval) list"

datatype broadcast_callback = BroadcastPositions

datatype socket_action = Send BaseMessage | Ping_frame | Terminate | Close nat string

text \<open>What a handler does to sockets, each action with the id of the socket's connection.\<close>

type_synonym outbox = "(string \<times> socket_action) list"

record LoungeServer =
  clients :: "(string, ClientConnection) js_map"
  heartbeat_armed :: bool
  playerRegistry :: "broadcast_callback PlayerRegistry"

definition newLoungeServer :: LoungeServer where
  \<comment> \<open>the constructor: \<^verbatim>\<open>startHeartbeat()\<close> and \<^verbatim>\<open>startPlayerBroadcast()\<close>\<close>
  "newLoungeServer =
     \<lparr> clients = [], heartbeat_armed = True,
       playerRegistry = start BroadcastPositions newPlayerRegistry \<rparr>"

definition sendTo :: "ClientConnection \<Rightarrow> BaseMessage \<Rightarrow> outbox" where
  "sendTo client msg =
     (if readyState client = WS_OPEN then [(conn_id client, Send msg)] else [])"

fun broadcast_loop ::
  "BaseMessage \<Rightarrow> string option \<Rightarrow> (string, ClientConnection) js_map \<Rightarrow> outbox" where
  "broadcast_loop msg excludeId [] = []"
| "broadcast_loop msg excludeId ((i, client) # rest) =
     (if Some i \<noteq> excludeId \<and> readyState client = WS_OPEN
      then (conn_id client, Send msg) # broadcast_loop msg excludeId rest
      else broadcast_loop msg excludeId rest)"

definition broadcast :: "BaseMessage \<Rightarrow> string option \<Rightarrow> LoungeServer \<Rightarrow> outbox" where
  \<comment> \<open>\<open>excludeId = None\<close> when the call passes no \<^verbatim>\<open>excludeId\<close>\<close>
  "broadcast msg excludeId s = broadcast_loop msg excludeId (clients s)"

definition onConnection ::
  "(string \<Rightarrow> nat) \<Rightarrow> real \<Rightarrow> string \<Rightarrow> (nat \<Rightarrow> string) \<Rightarrow> LoungeServer
     \<Rightarrow> LoungeServer \<times> outbox" where
  \<comment> \<open>\<open>uuid\<close> is the result of \<^verbatim>\<open>randomUUID()\<close>, \<open>chatIds n\<close> that of the \<open>n\<close>-th
      call of \<^verbatim>\<open>generateChatId()\<close> in the handler\<close>
  "onConnection generatePlayerColor now uuid chatIds s =
     (let client = \<lparr> conn_id = uuid, readyState = WS_OPEN, isAlive = True,
                      connectedAt = now, lastPingSeq = 0,
                      conn_username = ''Player_'' @ take 6 uuid, metadata = [] \<rparr>;
          s1 = s\<lparr> clients := Map_set uuid client (clients s) \<rparr>;
          out1 = sendTo client (createMessage now CONNECT (ConnectPayload uuid now) ''server'');
          (playerState, reg) =
             addPlayer generatePlayerColor now uuid (conn_username client) (playerRegistry s1);
          s2 = s1\<lparr> playerRegistry := reg \<rparr>;
          allPlayers = getAllPlayers (playerRegistry s2);
          out2 = sendTo client
                   (createMessage now PLAYER_STATE (PlayerStatePayload allPlayers) ''server'');
          out3 = broadcast
                   (createMessage now PLAYER_JOIN (PlayerJoinPayload playerState) ''server'')
                   (Some uuid) s2;
          joinChatMsg = createChatMessage (chatIds 0) now ''server'' ''System''
                          (playerJoin (conn_username client)) system None None;
          out4 = broadcast
                   (createMessage now CHAT_SYSTEM (ChatMessagePayload joinChatMsg) ''server'')
                   None s2
      in (s2, out1 @ out2 @ out3 @ out4))"

fun findByUsername ::
  "string \<Rightarrow> (string, ClientConnection) js_map \<Rightarrow> ClientConnection option" where
  \<comment> \<open>the loop over \<^verbatim>\<open>this.clients.values()\<close> that stops at the first match\<close>
  "findByUsername name [] = None"
| "findByUsername name ((i, c) # rest) =
     (if toLowerCase (conn_username c) = toLowerCase name then Some c
      else findByUsername name rest)"

definition findTarget ::
  "(string, ClientConnection) js_map \<Rightarrow> string option \<Rightarrow> string option
     \<Rightarrow> ClientConnection option" where
  \<comment> \<open>the lookup of \<^verbatim>\<open>targetClient\<close> in the whisper case\<close>
  "findTarget cs tid tname =
     (if truthy tid then Map_get cs (the tid)
      else if truthy tname then findByUsername (the tname) cs
      else None)"

definition firstTruthy :: "string option \<Rightarrow> string option \<Rightarrow> string \<Rightarrow> string" where
  \<comment> \<open>\<^verbatim>\<open>a || b || c\<close> with a string \<open>c\<close>\<close>
  "firstTruthy a b c = (if truthy a then the a else if truthy b then the b else c)"

definition handleChatMessage ::
  "real \<Rightarrow> (nat \<Rightarrow> string) \<Rightarrow> ClientConnection \<Rightarrow> BaseMessage \<Rightarrow> LoungeServer
     \<Rightarrow> fault + (LoungeServer \<times> outbox)" where
  "handleChatMessage now chatIds client msg s =
     (if msg_type msg = CHAT_SEND then
        (case payload msg of
           ChatSendPayload text \<Rightarrow>
             (let chatMsg = createChatMessage (chatIds 0) now (conn_id client)
                              (conn_username client) text chat None None
              in Inr (s, broadcast
                           (createMessage now CHAT_MESSAGE (ChatMessagePayload chatMsg) ''server'')
                           None s))
         | _ \<Rightarrow> Inl IllTypedPayload)
      else if msg_type msg = CHAT_WHISPER then
        (case payload msg of
           ChatWhisperPayload tid tname text \<Rightarrow>
             (case findTarget (clients s) tid tname of
                None \<Rightarrow>
                  Inr (s, sendTo client
                            (createMessage now CHAT_ERROR
                               (ChatErrorPayload ''PLAYER_NOT_FOUND''
                                  (playerNotFound (firstTruthy tname tid ''unknown'')))
                               ''server''))
              | Some targetClient \<Rightarrow>
                  (let chatMsg = createChatMessage (chatIds 0) now (conn_id client)
                                   (conn_username client) text whisper
                                   (Some (conn_id targetClient))
                                   (Some (conn_username targetClient));
                       out1 = sendTo targetClient
                                (createMessage now CHAT_MESSAGE (ChatMessagePayload chatMsg)
                                   ''server'');
                       senderChatMsg = createChatMessage (chatIds 1) now (conn_id client)
                                         (conn_username client) text whisper
                                         (Some (conn_id targetClient))
                                         (Some (conn_username targetClient));
                       out2 = sendTo client
                                (createMessage now CHAT_MESSAGE
                                   (ChatMessagePayload senderChatMsg) ''server'')
                   in Inr (s, out1 @ out2)))
         | _ \<Rightarrow> Inl IllTypedPayload)
      else if msg_type msg = CHAT_EMOTE then
        (case payload msg of
           ChatEmotePayload action \<Rightarrow>
             (let chatMsg = createChatMessage (chatIds 0) now (conn_id client)
                              (conn_username client) action emote None None
              in Inr (s, broadcast
                           (createMessage now CHAT_MESSAGE (ChatMessagePayload chatMsg) ''server'')
                           None s))
         | _ \<Rightarrow> Inl IllTypedPayload)
      else Inr (s, []))"

definition handlePlayerMessage ::
  "real \<Rightarrow> ClientConnection \<Rightarrow> BaseMessage \<Rightarrow> LoungeServer
     \<Rightarrow> fault + (LoungeServer \<times> outbox)" where
  "handlePlayerMessage now client msg s =
     (if msg_type msg = PLAYER_POSITION then
        (case payload msg of
           PlayerPositionPayload u \<Rightarrow>
             Inr (s\<lparr> playerRegistry :=
                       snd (updatePosition now (conn_id client) (update_position u)
                              (update_rotation u) (playerRegistry s)) \<rparr>, [])
         | _ \<Rightarrow> Inl IllTypedPayload)
      else if msg_type msg = REQUEST_FULL_STATE then
        Inr (s, sendTo client
                  (createMessage now PLAYER_STATE
                     (PlayerStatePayload (getAllPlayers (playerRegistry s))) ''server''))
      else if msg_type msg = PLAYER_STATUS_CHANGE then
        (case payload msg of
           PlayerStatusChangePayload i st \<Rightarrow>
             (let s1 = s\<lparr> playerRegistry :=
                            snd (updateStatus now (conn_id client) st (playerRegistry s)) \<rparr>
              in Inr (s1, broadcast msg None s1))
         | _ \<Rightarrow> Inl IllTypedPayload)
      else Inr (s, []))"

definition assignIsAlive :: "string \<Rightarrow> bool \<Rightarrow> LoungeServer \<Rightarrow> LoungeServer" where
  \<comment> \<open>\<^verbatim>\<open>client.isAlive = b\<close> for the connection object with id \<open>i\<close>: the assignment
      shows in the client map if the object is still in it\<close>
  "assignIsAlive i b s =
     (case Map_get (clients s) i of
        Some c \<Rightarrow> s\<lparr> clients := Map_set i (c\<lparr> isAlive := b \<rparr>) (clients s) \<rparr>
      | None \<Rightarrow> s)"

definition handleMessage ::
  "real \<Rightarrow> (nat \<Rightarrow> string) \<Rightarrow> ClientConnection \<Rightarrow> BaseMessage option \<Rightarrow> LoungeServer
     \<Rightarrow> fault + (LoungeServer \<times> outbox)" where
  \<comment> \<open>\<open>parsed\<close> is the result of \<^verbatim>\<open>parseMessage(data)\<close>, read as a typed message\<close>
  "handleMessage now chatIds client parsed s =
     (case parsed of
        None \<Rightarrow>
          Inr (s, sendTo client
                    (createMessage now ERROR
                       (ErrorPayload ''INVALID_MESSAGE'' ''Message could not be parsed'')
                       ''server''))
      | Some msg \<Rightarrow>
          if msg_type msg = PING then
            (case payload msg of
               PingPayload seq \<Rightarrow>
                 Inr (s, sendTo client (createMessage now PONG (PongPayload seq now) ''server''))
             | _ \<Rightarrow> Inl IllTypedPayload)
          else if msg_type msg = PONG then Inr (assignIsAlive (conn_id client) True s, [])
          else if isPlayerMessage msg then handlePlayerMessage now client msg s
          else if isChatMessage msg then handleChatMessage now chatIds client msg s
          else Inr (s, broadcast msg (Some (conn_id client)) s))"

definition onPong :: "ClientConnection \<Rightarrow> LoungeServer \<Rightarrow> LoungeServer" where
  \<comment> \<open>the handler of the socket's \<^verbatim>\<open>pong\<close> event\<close>
  "onPong client s = assignIsAlive (conn_id client) True s"

definition handleDisconnect ::
  "real \<Rightarrow> (nat \<Rightarrow> string) \<Rightarrow> ClientConnection \<Rightarrow> nat \<Rightarrow> string \<Rightarrow> LoungeServer
     \<Rightarrow> LoungeServer \<times> outbox" where
  "handleDisconnect now chatIds client code reason s =
     (let uname = conn_username client;
          s1 = s\<lparr> playerRegistry := snd (removePlayer (conn_id client) (playerRegistry s)) \<rparr>;
          s2 = s1\<lparr> clients := Map_delete (conn_id client) (clients s1) \<rparr>;
          out1 = broadcast
                   (createMessage now PLAYER_LEAVE
                      (PlayerLeavePayload (conn_id client) (Some reason)) ''server'')
                   None s2;
          leaveChatMsg = createChatMessage (chatIds 0) now ''server'' ''System''
                           (playerLeave uname) system None None;
          out2 = broadcast
                   (createMessage now CHAT_SYSTEM (ChatMessagePayload leaveChatMsg) ''server'')
                   None s2;
          out3 = broadcast
                   (createMessage now DISCONNECT
                      (DisconnectPayload (conn_id client) (Some reason)) ''server'')
                   None s2
      in (s2, out1 @ out2 @ out3))"

definition playerBroadcastCallback ::
  "real \<Rightarrow> PlayerPositionUpdate list \<Rightarrow> real \<Rightarrow> LoungeServer \<Rightarrow> outbox" where
  \<comment> \<open>the arrow function that \<^verbatim>\<open>startPlayerBroadcast\<close> passes to the registry\<close>
  "playerBroadcastCallback now updates serverTime s =
     (if length updates > 0
      then broadcast
             (createMessage now PLAYER_BATCH_POSITION
                (PlayerBatchPositionPayload updates serverTime) ''server'')
             None s
      else [])"

definition onTick :: "real \<Rightarrow> LoungeServer \<Rightarrow> LoungeServer \<times> outbox" where
  \<comment> \<open>one firing of the registry's interval timer: \<^verbatim>\<open>tick()\<close> and, inside it, the callback\<close>
  "onTick now s =
     (let (reg, call) = tick now (playerRegistry s);
          s1 = s\<lparr> playerRegistry := reg \<rparr>
      in case call of
           None \<Rightarrow> (s1, [])
         | Some (cb, updates, serverTime) \<Rightarrow>
             (s1, playerBroadcastCallback now updates serverTime s1))"

text \<open>
  The heartbeat sweep visits the entries of the client map in order. Visiting an entry
  changes or deletes that entry only, so the entries are those of the map at the start.
\<close>

definition heartbeat_step ::
  "real \<Rightarrow> string \<times> ClientConnection \<Rightarrow> LoungeServer \<times> outbox \<Rightarrow> LoungeServer \<times> outbox" where
  "heartbeat_step now entry acc =
     (let (i, client) = entry; (s, out) = acc in
      if \<not> isAlive client then
        (let s1 = s\<lparr> playerRegistry := snd (removePlayer i (playerRegistry s)) \<rparr>;
             s2 = s1\<lparr> clients := Map_delete i (clients s1) \<rparr>;
             out1 = broadcast
                      (createMessage now PLAYER_LEAVE
                         (PlayerLeavePayload i (Some ''heartbeat timeout'')) ''server'')
                      None s2;
             out2 = broadcast
                      (createMessage now DISCONNECT
                         (DisconnectPayload i (Some ''heartbeat timeout'')) ''server'')
                      None s2
         in (s2, out @ [(conn_id client, Terminate)] @ out1 @ out2))
      else (assignIsAlive i False s, out @ [(conn_id client, Ping_frame)]))"

definition heartbeat :: "real \<Rightarrow> LoungeServer \<Rightarrow> LoungeServer \<times> outbox" where
  "heartbeat now s = foldl (\<lambda>acc entry. heartbeat_step now entry acc) (s, []) (clients s)"

definition shutdown :: "LoungeServer \<Rightarrow> LoungeServer \<times> outbox" where
  "shutdown s =
     (s\<lparr> heartbeat_armed := False, playerRegistry := stop (playerRegistry s) \<rparr>,
      map (\<lambda>client. (conn_id client, Close CloseCode_GOING_AWAY ''Server shutting down''))
        (Map_values (clients s)))"

text \<open>
  The two maps of the server agree: the session ids of the client map are the player
  ids of the registry, each once.
\<close>

definition sessions_match_players :: "LoungeServer \<Rightarrow> bool" where
  "sessions_match_players s =
     (set (Map_keys (clients s)) = set (Map_keys (players (playerRegistry s))) \<and>
      distinct (Map_keys (clients s)) \<and>
      distinct (Map_keys (players (playerRegistry s))))"

text \<open>
  The states of the server: the constructor's state and what the handlers of its events
  (a connection, a message, a pong frame, a socket close, the heartbeat sweep, the
  registry's tick) make of a state. The connection object a handler is given is
  arbitrary here.
\<close>

inductive reachable :: "LoungeServer \<Rightarrow> bool" where
  init: "reachable newLoungeServer"
| connection: "reachable s \<Longrightarrow> reachable (fst (onConnection gen now uuid chatIds s))"
| message: "reachable s \<Longrightarrow> handleMessage now chatIds client parsed s = Inr (s', out)
              \<Longrightarrow> reachable s'"
| pong: "reachable s \<Longrightarrow> reachable (onPong client s)"
| close: "reachable s \<Longrightarrow> reachable (fst (handleDisconnect now chatIds client code reason s))"
| sweep: "reachable s \<Longrightarrow> reachable (fst (heartbeat now s))"
| tick: "reachable s \<Longrightarrow> reachable (fst (onTick now s))"

text \<open>
  The whisper target of the specification: no client has the target id, and no
  client's user name equals the target name up to case.
\<close>

definition resolves_to_no_client ::
  "(string, ClientConnection) js_map \<Rightarrow> string option \<Rightarrow> string option \<Rightarrow> bool" where
  "resolves_to_no_client cs tid tname =
     (list_all (\<lambda>i. Some i \<noteq> tid) (Map_keys cs) \<and>
      list_all (\<lambda>c. tname = None \<or> toLowerCase (conn_username c) \<noteq> toLowerCase (the tname))
        (Map_values cs))"

subsection \<open>Example states\<close>

definition example_player :: "string \<Rightarrow> real \<Rightarrow> bool \<Rightarrow> ServerPlayerState" where
  "example_player i px d =
     \<lparr> player_id = i, username = ''Player_'' @ i,
       position = \<lparr> x = px, y = 0, z = 0 \<rparr>, rotation = \<lparr> x = 0, y = 0, z = 0 \<rparr>,
       avatar = avatar_default, status = active, color = 0,
       lastUpdate = 7, dirty = d \<rparr>"

definition example_tick_registry :: "unit PlayerRegistry" where
  "example_tick_registry =
     \<lparr> players =
         [(''a'', \<lparr> player_id = ''a'', username = ''Player_a'',
                    position = \<lparr> x = 1, y = 2, z = 3 \<rparr>, rotation = \<lparr> x = 0, y = 1/2, z = 0 \<rparr>,
                    avatar = avatar_default, status = active, color = 16711680,
                    lastUpdate = 7, dirty = True \<rparr>),
          (''b'', \<lparr> player_id = ''b'', username = ''Player_b'',
                    position = \<lparr> x = 10, y = 0, z = 10 \<rparr>, rotation = \<lparr> x = 0, y = 3, z = 0 \<rparr>,
                    avatar = avatar_robot, status = idle, color = 255,
                    lastUpdate = 5, dirty = False \<rparr>),
          (''c'', \<lparr> player_id = ''c'', username = ''Player_c'',
                    position = \<lparr> x = 4, y = 5, z = 6 \<rparr>, rotation = \<lparr> x = 0, y = 2, z = 1 \<rparr>,
                    avatar = avatar_alien, status = away, color = 65280,
                    lastUpdate = 8, dirty = True \<rparr>)],
       tickInterval = True, onBroadcast = Some () \<rparr>"

definition example_remote :: "PositionSnapshot list \<Rightarrow> RemotePlayer" where
  "example_remote buf =
     (newRemotePlayer (toPublicState (example_player ''b'' 2 False)))\<lparr> positionBuffer := buf \<rparr>"

text \<open>
  An envelope and its text, the text of an object without sender id, and an envelope
  whose timestamp is \<^verbatim>\<open>NaN\<close> with the text that \<^verbatim>\<open>JSON.stringify\<close> writes for it.
  \<open>table_JSON_parse\<close> is the runtime's \<^verbatim>\<open>JSON.parse\<close> on the first two texts; a finite
  table, used only to instantiate the parameter of \<open>parseMessage\<close> on them.
\<close>

definition quoted :: "string \<Rightarrow> string" where
  "quoted s = CHR 0x22 # s @ [CHR 0x22]"

definition example_envelope :: jsval where
  "example_envelope =
     JObject [(''type'', JString ''chat:send''),
              (''payload'', JObject [(''content'', JString ''hi'')]),
              (''timestamp'', JNumber (Decimal False [1, 7] 13)),
              (''senderId'', JString ''abc123'')]"

definition example_envelope_text :: string where
  "example_envelope_text =
     ''{'' @ quoted ''type'' @ '':'' @ quoted ''chat:send'' @ '','' @
       quoted ''payload'' @ '':{'' @ quoted ''content'' @ '':'' @ quoted ''hi'' @ ''},'' @
       quoted ''timestamp'' @ '':1700000000000,'' @
       quoted ''senderId'' @ '':'' @ quoted ''abc123'' @ ''}''"

definition example_incomplete_text :: string where
  "example_incomplete_text =
     ''{'' @ quoted ''type'' @ '':'' @ quoted ''chat:send'' @ '','' @
       quoted ''payload'' @ '':null,'' @ quoted ''timestamp'' @ '':5}''"

definition example_incomplete :: jsval where
  "example_incomplete =
     JObject [(''type'', JString ''chat:send''), (''payload'', JNull),
              (''timestamp'', JNumber (Decimal False [5] 1))]"

definition table_JSON_parse :: "string \<Rightarrow> js_exception + jsval" where
  "table_JSON_parse s =
     (if s = example_envelope_text then Inr example_envelope
      else if s = example_incomplete_text then Inr example_incomplete
      else if s = ''null'' then Inr JNull
      else Inl SyntaxError)"



definition example_client :: LoungeClient where
  "example_client =
     (newLoungeClient (DEFAULT_CONFIG ''ws://localhost:8080''))
       \<lparr> socket := True, clientId := Some ''abc123'', state := connected \<rparr>"

definition example_connection :: "string \<Rightarrow> ClientConnection" where
  "example_connection i =
     \<lparr> conn_id = i, readyState = WS_OPEN, isAlive = True, connectedAt = 0, lastPingSeq = 0,
       conn_username = ''Player_'' @ take 6 i, metadata = [] \<rparr>"

definition example_lounge :: LoungeServer where
  "example_lounge =
     \<lparr> clients = [(''aaaaaaaa'', example_connection ''aaaaaaaa''),
                  (''bbbbbbbb'', example_connection ''bbbbbbbb'')],
       heartbeat_armed = True,
       playerRegistry =
         \<lparr> players = [(''aaaaaaaa'', example_player ''aaaaaaaa'' 1 True),
                      (''bbbbbbbb'', example_player ''bbbbbbbb'' 2 False)],
           tickInterval = True, onBroadcast = Some BroadcastPositions \<rparr> \<rparr>"

definition example_whisper :: BaseMessage where
  "example_whisper =
     \<lparr> msg_type = ''chat:whisper'',
       payload = ChatWhisperPayload None (Some ''nobody'') ''psst'',
       timestamp = 8, senderId = ''aaaaaaaa'' \<rparr>"

definition example_server :: LoungeServer where
  "example_server =
     fst (onConnection (\<lambda>i. 0) 1 ''bbbbbbbb'' (\<lambda>n. ''chat_1'')
       (fst (onConnection (\<lambda>i. 0) 0 ''aaaaaaaa'' (\<lambda>n. ''chat_0'') newLoungeServer)))"

definition example_manager :: PlayerManager where
  "example_manager =
     newPlayerManager
       \<lparr> remotePlayers := [(''b'', example_remote [])],
         localPlayerId := Some ''aaaaaaaa'' \<rparr>"

section \<open>Properties\<close>

subsection \<open>The broadcast tick\<close>

lemma tick_loop_eq:
  "tick_loop ps seen updates =
     (seen @ map (\<lambda>(k, p). (k, p\<lparr> dirty := False \<rparr>)) ps,
      updates @ map positionUpdateOf (filter dirty (map snd ps)))"
proof (induction ps arbitrary: seen updates)
  case Nil
  then show ?case by simp
next
  case (Cons kp ps)
  obtain k p where kp: "kp = (k, p)" by (cases kp)
  show ?case
  proof (cases "dirty p")
    case True
    then show ?thesis using Cons.IH kp by simp
  next
    case False
    then have "p\<lparr> dirty := False \<rparr> = p" by simp
    then show ?thesis using Cons.IH kp False by simp
  qed
qed

lemma tick_started:
  assumes "onBroadcast r = Some cb"
  shows "tick now r =
           (r\<lparr> players := map (\<lambda>(k, p). (k, p\<lparr> dirty := False \<rparr>)) (players r) \<rparr>,
            if \<exists>p \<in> set (Map_values (players r)). dirty p
            then Some (cb, map positionUpdateOf (filter dirty (Map_values (players r))), now)
            else None)"
proof (cases "players r = []")
  case True
  then show ?thesis using assms by (simp add: tick_def Map_values_def)
next
  case False
  have "(filter dirty (map snd (players r)) \<noteq> []) = (\<exists>p \<in> set (map snd (players r)). dirty p)"
    by (simp add: filter_empty_conv)
  then show ?thesis
    using assms False by (simp add: tick_def tick_loop_eq Map_values_def)
qed

text \<open>
  C1. A tick of a started registry calls the broadcast callback with exactly the updates
  \<open>{id, position, rotation, timestamp = lastUpdate}\<close> of the dirty players, in the
  order of the player map, together with the tick's wall-clock time; clean players
  contribute nothing; afterwards every dirty flag is cleared and nothing else in the
  player map has changed; when no player is dirty the callback is not called.
\<close>

theorem tick_broadcasts_exactly_dirty:
  assumes "onBroadcast r = Some cb"
  shows "tick now r =
           (r\<lparr> players := map (\<lambda>(k, p). (k, p\<lparr> dirty := False \<rparr>)) (players r) \<rparr>,
            if \<exists>p \<in> set (Map_values (players r)). dirty p
            then Some (cb,
                       map (\<lambda>p. \<lparr> update_id = player_id p, update_position = position p,
                                   update_rotation = rotation p,
                                   update_timestamp = lastUpdate p \<rparr>)
                         (filter dirty (Map_values (players r))),
                       now)
            else None)"
proof -
  have "positionUpdateOf =
          (\<lambda>p. \<lparr> update_id = player_id p, update_position = position p,
                  update_rotation = rotation p, update_timestamp = lastUpdate p \<rparr>)"
    by (rule ext) (simp add: positionUpdateOf_def)
  then show ?thesis
    using tick_started [OF assms, of now] by (simp only:)
qed

theorem tick_broadcasts_exactly_dirty_witness:
  "onBroadcast example_tick_registry = Some () \<and>
   tick 9 example_tick_registry =
     (example_tick_registry\<lparr> players :=
        [(''a'', \<lparr> player_id = ''a'', username = ''Player_a'',
                   position = \<lparr> x = 1, y = 2, z = 3 \<rparr>, rotation = \<lparr> x = 0, y = 1/2, z = 0 \<rparr>,
                   avatar = avatar_default, status = active, color = 16711680,
                   lastUpdate = 7, dirty = False \<rparr>),
         (''b'', \<lparr> player_id = ''b'', username = ''Player_b'',
                   position = \<lparr> x = 10, y = 0, z = 10 \<rparr>, rotation = \<lparr> x = 0, y = 3, z = 0 \<rparr>,
                   avatar = avatar_robot, status = idle, color = 255,
                   lastUpdate = 5, dirty = False \<rparr>),
         (''c'', \<lparr> player_id = ''c'', username = ''Player_c'',
                   position = \<lparr> x = 4, y = 5, z = 6 \<rparr>, rotation = \<lparr> x = 0, y = 2, z = 1 \<rparr>,
                   avatar = avatar_alien, status = away, color = 65280,
                   lastUpdate = 8, dirty = False \<rparr>)] \<rparr>,
      Some ((),
            [\<lparr> update_id = ''a'', update_position = \<lparr> x = 1, y = 2, z = 3 \<rparr>,
               update_rotation = \<lparr> x = 0, y = 1/2, z = 0 \<rparr>, update_timestamp = 7 \<rparr>,
             \<lparr> update_id = ''c'', update_position = \<lparr> x = 4, y = 5, z = 6 \<rparr>,
               update_rotation = \<lparr> x = 0, y = 2, z = 1 \<rparr>, update_timestamp = 8 \<rparr>],
            9))"
  using tick_broadcasts_exactly_dirty [of example_tick_registry "()" 9]
  by (simp add: example_tick_registry_def Map_values_def)

subsection \<open>Interpolation of remote players\<close>

lemma findBracket_None_iff:
  "findBracket rt buf = None \<longleftrightarrow> no_adjacent_pair_brackets rt buf"
  by (induction rt buf rule: findBracket.induct)
     (auto simp: no_adjacent_pair_brackets_def brackets_def)

lemma smooth_targets [simp]:
  "targetPosition (smooth rt rp) = targetPosition rp"
  "targetRotation (smooth rt rp) = targetRotation rp"
  by (simp_all add: smooth_def)

text \<open>
  C2. With snapshots at timestamp 0 (position (0,0,0)) and timestamp 100 (position
  (10,0,0)) in the buffer and the interpolation delay of 100, the update at wall-clock
  time 100 (render time 0) sets the target position to (0,0,0), and the update at
  wall-clock time 150 (render time 50) sets it to the midpoint (5,0,0).
\<close>

theorem update_interpolates_example:
  assumes "positionBuffer rp = [snapshot_at 0 (vec 0 0 0) r0, snapshot_at 100 (vec 10 0 0) r1]"
  shows "INTERPOLATION_DELAY = 100 \<and>
         (\<exists>rp'. update 100 dt rp = Inr rp' \<and> targetPosition rp' = vec 0 0 0) \<and>
         (\<exists>rp'. update 150 dt rp = Inr rp' \<and> targetPosition rp' = vec 5 0 0) \<and>
         (\<exists>rp' rp''. update 100 dt rp = Inr rp' \<and> update 150 dt' rp' = Inr rp'' \<and>
            targetPosition rp'' = vec 5 0 0)"
proof -
  have first: "\<exists>rp'. update 100 dt rp = Inr rp' \<and> targetPosition rp' = vec 0 0 0 \<and>
                 positionBuffer rp' = positionBuffer rp"
    using assms
    by (simp add: update_def INTERPOLATION_DELAY_def snapshot_at_def vec_def lerp_def Let_def
          smooth_def)
  have at150: "\<exists>rp'. update 150 d q = Inr rp' \<and> targetPosition rp' = vec 5 0 0"
    if "positionBuffer q = positionBuffer rp" for q d
    using that assms
    by (simp add: update_def INTERPOLATION_DELAY_def snapshot_at_def vec_def lerp_def Let_def)
  from first obtain rp' where rp': "update 100 dt rp = Inr rp'" "targetPosition rp' = vec 0 0 0"
    "positionBuffer rp' = positionBuffer rp" by blast
  from at150 [OF rp'(3), of dt'] obtain rp'' where
    rp'': "update 150 dt' rp' = Inr rp''" "targetPosition rp'' = vec 5 0 0" by blast
  have seq: "\<exists>rp' rp''. update 100 dt rp = Inr rp' \<and> update 150 dt' rp' = Inr rp'' \<and>
               targetPosition rp'' = vec 5 0 0"
    using rp'(1) rp'' by blast
  have one: "\<exists>rp'. update 100 dt rp = Inr rp' \<and> targetPosition rp' = vec 0 0 0"
    using rp'(1,2) by blast
  show ?thesis
    using one at150 [of rp dt] seq by (simp add: INTERPOLATION_DELAY_def)
qed

theorem update_interpolates_example_witness:
  "positionBuffer (example_remote [snapshot_at 0 (vec 0 0 0) (vec 0 1 0),
                                   snapshot_at 100 (vec 10 0 0) (vec 0 2 0)])
     = [snapshot_at 0 (vec 0 0 0) (vec 0 1 0), snapshot_at 100 (vec 10 0 0) (vec 0 2 0)] \<and>
   targetPosition (projr (update 100 16 (example_remote
      [snapshot_at 0 (vec 0 0 0) (vec 0 1 0), snapshot_at 100 (vec 10 0 0) (vec 0 2 0)])))
     = vec 0 0 0 \<and>
   targetPosition (projr (update 150 16 (example_remote
      [snapshot_at 0 (vec 0 0 0) (vec 0 1 0), snapshot_at 100 (vec 10 0 0) (vec 0 2 0)])))
     = vec 5 0 0"
proof -
  let ?rp = "example_remote [snapshot_at 0 (vec 0 0 0) (vec 0 1 0),
                             snapshot_at 100 (vec 10 0 0) (vec 0 2 0)]"
  have buf: "positionBuffer ?rp = [snapshot_at 0 (vec 0 0 0) (vec 0 1 0),
                                  snapshot_at 100 (vec 10 0 0) (vec 0 2 0)]"
    by (simp add: example_remote_def)
  from update_interpolates_example [OF buf, of 16 16] show ?thesis
    using buf by auto
qed

text \<open>
  C3. When the buffer holds at least two snapshots and no adjacent pair brackets the
  render time (for example snapshots at 0 and 50 only and render time 200), and
  likewise when the buffer is empty, the update returns normally and leaves
  \<open>targetPosition\<close> and \<open>targetRotation\<close> as they were: no extrapolation, no crash.
\<close>

theorem update_gap_keeps_target:
  assumes "(2 \<le> length (positionBuffer rp) \<and>
            no_adjacent_pair_brackets (now - INTERPOLATION_DELAY) (positionBuffer rp))
           \<or> positionBuffer rp = []"
  shows "\<exists>rp'. update now dt rp = Inr rp' \<and>
               targetPosition rp' = targetPosition rp \<and>
               targetRotation rp' = targetRotation rp"
  using assms
  by (auto simp: update_def Let_def findBracket_None_iff[symmetric])

theorem update_gap_keeps_target_witness:
  "2 \<le> length (positionBuffer (example_remote
          [snapshot_at 0 (vec 1 2 3) (vec 0 1 0), snapshot_at 50 (vec 4 5 6) (vec 0 2 0)])) \<and>
   no_adjacent_pair_brackets (300 - INTERPOLATION_DELAY) (positionBuffer (example_remote
          [snapshot_at 0 (vec 1 2 3) (vec 0 1 0), snapshot_at 50 (vec 4 5 6) (vec 0 2 0)])) \<and>
   300 - INTERPOLATION_DELAY = 200 \<and>
   targetPosition (projr (update 300 16 (example_remote
          [snapshot_at 0 (vec 1 2 3) (vec 0 1 0), snapshot_at 50 (vec 4 5 6) (vec 0 2 0)])))
     = vec 2 0 0 \<and>
   targetRotation (projr (update 300 16 (example_remote
          [snapshot_at 0 (vec 1 2 3) (vec 0 1 0), snapshot_at 50 (vec 4 5 6) (vec 0 2 0)])))
     = vec 0 0 0"
proof -
  let ?rp = "example_remote
          [snapshot_at 0 (vec 1 2 3) (vec 0 1 0), snapshot_at 50 (vec 4 5 6) (vec 0 2 0)]"
  have h: "(2 \<le> length (positionBuffer ?rp) \<and>
            no_adjacent_pair_brackets (300 - INTERPOLATION_DELAY) (positionBuffer ?rp))
           \<or> positionBuffer ?rp = []"
    by (simp add: example_remote_def no_adjacent_pair_brackets_def brackets_def
          INTERPOLATION_DELAY_def snapshot_at_def)
  have t: "targetPosition ?rp = vec 2 0 0" "targetRotation ?rp = vec 0 0 0"
    by (simp_all add: example_remote_def newRemotePlayer_def toPublicState_def
          example_player_def vec_def)
  from update_gap_keeps_target [OF h, of 16] show ?thesis
    using h t by (auto simp: INTERPOLATION_DELAY_def example_remote_def)
qed

subsection \<open>\<^verbatim>\<open>JSON.parse\<close> reads back what \<^verbatim>\<open>JSON.stringify\<close> writes\<close>

text \<open>
  The lemmas of this subsection lead to \<open>JSON_round_trip\<close>: for a JSON-representable
  value, \<^verbatim>\<open>JSON.stringify\<close> yields a text, and \<^verbatim>\<open>JSON.parse\<close> of that text yields the
  value. They go through numbers (the four formats of \<open>NumberToString\<close>), strings
  (character by character), and then arrays and objects by induction on the value,
  with the text that is still to be read as the bound on the calls of the parser.
\<close>

lemma digit_char_is_digit: "d < 10 \<Longrightarrow> is_digit (digit_char d)"
  by (simp add: is_digit_def digit_char_def)



lemma takeWhile_zeros:
  "takeWhile is_digit (replicate m (CHR ''0'') @ r) = replicate m (CHR ''0'') @ takeWhile is_digit r"
  "dropWhile is_digit (replicate m (CHR ''0'') @ r) = dropWhile is_digit r"
  by (induction m) (simp_all add: is_digit_def)




lemma digit_value_zeros: "map digit_value (replicate m (CHR ''0'')) = replicate m 0"
  by (simp add: digit_value_def)









lemma digit_char_not_sign: "d < 10 \<Longrightarrow> digit_char d \<noteq> CHR ''-'' \<and> digit_char d \<noteq> CHR ''+''"
  using digit_char_is_digit [of d] by (auto simp: is_digit_def)





















lemma delimited_simps [simp]:
  "delimited []" "delimited (CHR '','' # r)" "delimited (CHR '']'' # r)" "delimited (CHR ''}'' # r)"
  by (simp_all add: delimited_def)


lemma skip_ws_punctuation [simp]:
  "skip_ws (CHR '','' # r) = CHR '','' # r" "skip_ws (CHR '']'' # r) = CHR '']'' # r"
  "skip_ws (CHR ''}'' # r) = CHR ''}'' # r" "skip_ws (CHR '':'' # r) = CHR '':'' # r"
  "skip_ws (CHR 0x22 # r) = CHR 0x22 # r" "skip_ws [] = []"
  by (simp_all add: skip_ws_def is_ws_def)




































subsection \<open>Parsing and serialising envelopes\<close>

lemma typeof_lookup_string:
  "typeof (case map_of props k of Some v \<Rightarrow> v | None \<Rightarrow> JUndefined) = ''string'' \<longleftrightarrow>
     (case map_of props k of Some (JString s) \<Rightarrow> True | _ \<Rightarrow> False)"
proof (cases "map_of props k")
  case None
  then show ?thesis by simp
next
  case (Some v)
  then show ?thesis by (cases v) simp_all
qed

lemma typeof_lookup_number:
  "typeof (case map_of props k of Some v \<Rightarrow> v | None \<Rightarrow> JUndefined) = ''number'' \<longleftrightarrow>
     (case map_of props k of Some (JNumber n) \<Rightarrow> True | _ \<Rightarrow> False)"
proof (cases "map_of props k")
  case None
  then show ?thesis by simp
next
  case (Some v)
  then show ?thesis by (cases v) simp_all
qed

lemma key_present:
  "k \<in> fst ` set props \<longleftrightarrow> (case map_of props k of Some p \<Rightarrow> True | None \<Rightarrow> False)"
proof (cases "map_of props k")
  case None
  then have "k \<notin> fst ` set props" by (simp add: map_of_eq_None_iff)
  with None show ?thesis by simp
next
  case (Some v)
  then have "(k, v) \<in> set props" by (rule map_of_SomeD)
  then have "k \<in> fst ` set props" by force
  with Some show ?thesis by simp
qed

lemma parseMessage_try_object:
  assumes "JSON_parse data = Inr (JObject props)"
  shows "parseMessage_try JSON_parse data =
           Inr (if all_four_fields (JObject props) then Some (JObject props) else None)"
  using assms
  by (simp add: parseMessage_try_def all_four_fields_def has_string_type_def has_payload_def
        has_numeric_timestamp_def has_string_senderId_def field_def
        typeof_lookup_string typeof_lookup_number key_present)

lemma parseMessage_try_other:
  assumes "JSON_parse data = Inr v" and "\<And>props. v \<noteq> JObject props"
  shows "parseMessage_try JSON_parse data = Inr None" and "\<not> all_four_fields v"
  using assms
  by (cases v; simp add: parseMessage_try_def all_four_fields_def has_string_type_def field_def)+

lemma parseMessage_eq:
  "parseMessage JSON_parse data =
     Inr (case JSON_parse data of
            Inl e \<Rightarrow> None
          | Inr v \<Rightarrow> if all_four_fields v then Some v else None)"
proof (cases "JSON_parse data")
  case (Inl e)
  then show ?thesis by (simp add: parseMessage_def parseMessage_try_def)
next
  case (Inr v)
  show ?thesis
  proof (cases "\<exists>props. v = JObject props")
    case True
    then obtain props where "v = JObject props" by blast
    with Inr parseMessage_try_object [of JSON_parse data props] show ?thesis
      by (simp add: parseMessage_def)
  next
    case False
    with Inr parseMessage_try_other [of JSON_parse data v] show ?thesis
      by (simp add: parseMessage_def)
  qed
qed




text \<open>
  On the texts of its table, \<open>table_JSON_parse\<close> is the \<^verbatim>\<open>JSON.parse\<close> of the runtime.
\<close>

lemma table_JSON_parse_agrees:
  "table_JSON_parse example_envelope_text = ECMAScript_JSON_parse example_envelope_text"
  "table_JSON_parse example_incomplete_text = ECMAScript_JSON_parse example_incomplete_text"
  "table_JSON_parse ''null'' = ECMAScript_JSON_parse ''null''"
  "table_JSON_parse ''{oops'' = ECMAScript_JSON_parse ''{oops''"
  by code_simp+

text \<open>
  C5. For every input string that is malformed JSON (\<^verbatim>\<open>JSON.parse\<close> throws), or whose
  parsed value lacks one of the four required fields (string type, payload present,
  numeric timestamp, string sender id), \<open>parseMessage\<close> returns \<^verbatim>\<open>null\<close>; it returns
  normally, no exception leaves it.
\<close>

theorem parseMessage_rejects_invalid:
  assumes "isl (JSON_parse data) \<or>
           (\<exists>v. JSON_parse data = Inr v \<and>
                \<not> (has_string_type v \<and> has_payload v \<and> has_numeric_timestamp v \<and>
                   has_string_senderId v))"
  shows "parseMessage JSON_parse data = Inr None"
  using assms
  by (auto simp: parseMessage_eq all_four_fields_def isl_def)

theorem parseMessage_rejects_invalid_witness:
  "isl (table_JSON_parse ''{oops'') \<and>
   parseMessage table_JSON_parse ''{oops'' = Inr None \<and>
   table_JSON_parse example_incomplete_text = Inr example_incomplete \<and>
   \<not> has_string_senderId example_incomplete \<and>
   parseMessage table_JSON_parse example_incomplete_text = Inr None"
proof -
  have m: "isl (table_JSON_parse ''{oops'')"
    by (simp add: table_JSON_parse_def example_envelope_text_def example_incomplete_text_def
          quoted_def)
  have p: "table_JSON_parse example_incomplete_text = Inr example_incomplete"
    by (simp add: table_JSON_parse_def example_envelope_text_def example_incomplete_text_def
          quoted_def)
  have f: "\<not> has_string_senderId example_incomplete"
    by (simp add: has_string_senderId_def field_def example_incomplete_def)
  have h1: "isl (table_JSON_parse ''{oops'') \<or>
            (\<exists>v. table_JSON_parse ''{oops'' = Inr v \<and>
                 \<not> (has_string_type v \<and> has_payload v \<and> has_numeric_timestamp v \<and>
                    has_string_senderId v))"
    using m by simp
  have h2: "isl (table_JSON_parse example_incomplete_text) \<or>
            (\<exists>v. table_JSON_parse example_incomplete_text = Inr v \<and>
                 \<not> (has_string_type v \<and> has_payload v \<and> has_numeric_timestamp v \<and>
                    has_string_senderId v))"
    using p f by simp
  from parseMessage_rejects_invalid
         [where JSON_parse = table_JSON_parse and data = "''{oops''"]
       parseMessage_rejects_invalid
         [where JSON_parse = table_JSON_parse and data = example_incomplete_text]
       h1 h2 m p f
  show ?thesis by simp
qed

subsection \<open>Reconnect backoff of the client\<close>

lemma handleConnectionFailure_retry:
  assumes "real (reconnectAttempts c) < maxReconnectAttempts (config c)"
  shows "handleConnectionFailure c =
           c\<lparr> socket := False, clientId := None, state := reconnecting,
              reconnectAttempts := reconnectAttempts c + 1,
              reconnectTimer := Some (reconnectInterval (config c) *
                                      min (real (reconnectAttempts c + 1)) 5) \<rparr>"
  using assms by (simp add: handleConnectionFailure_def setState_def Let_def)

lemma handleConnectionFailure_give_up:
  assumes "real (reconnectAttempts c) \<ge> maxReconnectAttempts (config c)"
  shows "handleConnectionFailure c = c\<lparr> socket := False, clientId := None, state := disconnected \<rparr>"
  using assms by (simp add: handleConnectionFailure_def setState_def Let_def)

lemma failed_attempt_eq:
  assumes "autoReconnect (config c)" and "code \<noteq> CloseCode_NORMAL"
    and "state c \<noteq> disconnected"
    and "real (reconnectAttempts c) < maxReconnectAttempts (config c)"
  shows "reconnectAttempts (failed_attempt code c) = reconnectAttempts c + 1 \<and>
         reconnectTimer (failed_attempt code c) =
           Some (reconnectInterval (config c) * min (real (reconnectAttempts c + 1)) 5) \<and>
         state (failed_attempt code c) = reconnecting \<and>
         config (failed_attempt code c) = config c"
  using assms
  by (cases "state c")
     (simp_all add: failed_attempt_def socket_onclose_def connect_def setState_def
        stopHeartbeat_def clearHeartbeatTimeout_def handleConnectionFailure_def Let_def)

lemma failures_from_open:
  assumes "autoReconnect (config c)" and "code \<noteq> CloseCode_NORMAL"
    and "state c \<noteq> disconnected"
    and "real n \<le> maxReconnectAttempts (config c)"
  shows "reconnectAttempts ((failed_attempt code ^^ n) (socket_onopen c)) = n \<and>
         state ((failed_attempt code ^^ n) (socket_onopen c)) \<noteq> disconnected \<and>
         config ((failed_attempt code ^^ n) (socket_onopen c)) = config c \<and>
         (0 < n \<longrightarrow> reconnectTimer ((failed_attempt code ^^ n) (socket_onopen c)) =
                       Some (reconnectInterval (config c) * min (real n) 5))"
  using assms(4)
proof (induction n)
  case 0
  then show ?case using assms(3) by (simp add: socket_onopen_def)
next
  case (Suc n)
  let ?c = "(failed_attempt code ^^ n) (socket_onopen c)"
  from Suc have le: "real n \<le> maxReconnectAttempts (config c)" by simp
  from Suc.IH [OF le] have ih: "reconnectAttempts ?c = n" "state ?c \<noteq> disconnected"
    "config ?c = config c" by simp_all
  have lt: "real (reconnectAttempts ?c) < maxReconnectAttempts (config ?c)"
    using ih Suc.prems by simp
  have ar: "autoReconnect (config ?c)" using ih assms(1) by simp
  from failed_attempt_eq [OF ar assms(2) ih(2) lt] ih
  show ?case by simp
qed

text \<open>
  C6. The attempt counter is reset to 0 by a socket open and incremented by every
  failure that schedules a reconnect. For every count \<open>a\<close> with
  \<open>1 \<le> a \<le> maxReconnectAttempts\<close>, the failure that brings the counter to \<open>a\<close>
  schedules the reconnect after \<open>reconnectInterval * min a 5\<close>: \<open>reconnectInterval * a\<close>
  for \<open>a\<close> from 1 to 5 and \<open>reconnectInterval * 5\<close> beyond. This holds for the single call
  of \<open>handleConnectionFailure\<close> and along \<open>a\<close> consecutive failed attempts after an open.
\<close>

theorem reconnect_backoff:
  assumes "1 \<le> a" and "real a \<le> maxReconnectAttempts (config c)"
  shows "(reconnectAttempts c = a - 1 \<longrightarrow>
            reconnectAttempts (handleConnectionFailure c) = a \<and>
            reconnectTimer (handleConnectionFailure c) =
              Some (reconnectInterval (config c) * real (min a 5))) \<and>
         (autoReconnect (config c) \<and> code \<noteq> CloseCode_NORMAL \<and> state c \<noteq> disconnected \<longrightarrow>
            reconnectAttempts (socket_onopen c) = 0 \<and>
            reconnectAttempts ((failed_attempt code ^^ a) (socket_onopen c)) = a \<and>
            reconnectTimer ((failed_attempt code ^^ a) (socket_onopen c)) =
              Some (reconnectInterval (config c) * real (min a 5)) \<and>
            (a \<le> 5 \<longrightarrow> reconnectTimer ((failed_attempt code ^^ a) (socket_onopen c)) =
                          Some (reconnectInterval (config c) * real a)) \<and>
            (5 < a \<longrightarrow> reconnectTimer ((failed_attempt code ^^ a) (socket_onopen c)) =
                          Some (reconnectInterval (config c) * 5)))"
proof (intro conjI impI)
  assume n: "reconnectAttempts c = a - 1"
  then have lt: "real (reconnectAttempts c) < maxReconnectAttempts (config c)"
    using assms by simp
  from n assms(1) have a: "reconnectAttempts c + 1 = a" by simp
  show "reconnectAttempts (handleConnectionFailure c) = a"
    using a by (simp add: handleConnectionFailure_retry [OF lt])
  show "reconnectTimer (handleConnectionFailure c) =
          Some (reconnectInterval (config c) * real (min a 5))"
    using a by (simp add: handleConnectionFailure_retry [OF lt] min_def)
next
  assume h: "autoReconnect (config c) \<and> code \<noteq> CloseCode_NORMAL \<and> state c \<noteq> disconnected"
  then have f: "reconnectAttempts ((failed_attempt code ^^ a) (socket_onopen c)) = a"
    "reconnectTimer ((failed_attempt code ^^ a) (socket_onopen c)) =
       Some (reconnectInterval (config c) * min (real a) 5)"
    using failures_from_open [of c code a] assms by simp_all
  show "reconnectAttempts (socket_onopen c) = 0" by (simp add: socket_onopen_def)
  show "reconnectAttempts ((failed_attempt code ^^ a) (socket_onopen c)) = a" by (rule f(1))
  show "reconnectTimer ((failed_attempt code ^^ a) (socket_onopen c)) =
          Some (reconnectInterval (config c) * real (min a 5))"
    using f(2) by (simp add: min_def)
  show "reconnectTimer ((failed_attempt code ^^ a) (socket_onopen c)) =
          Some (reconnectInterval (config c) * real a)" if "a \<le> 5"
    using f(2) that by (simp add: min_def)
  show "reconnectTimer ((failed_attempt code ^^ a) (socket_onopen c)) =
          Some (reconnectInterval (config c) * 5)" if "5 < a"
    using f(2) that by (simp add: min_def)
qed

theorem reconnect_backoff_witness:
  "(1::nat) \<le> 7 \<and> real (7::nat) \<le> maxReconnectAttempts (config example_client) \<and>
   autoReconnect (config example_client) \<and> 1006 \<noteq> CloseCode_NORMAL \<and>
   state example_client \<noteq> disconnected \<and>
   reconnectInterval (config example_client) = 2000 \<and>
   reconnectAttempts ((failed_attempt 1006 ^^ 7) (socket_onopen example_client)) = 7 \<and>
   reconnectTimer ((failed_attempt 1006 ^^ 7) (socket_onopen example_client)) = Some 10000 \<and>
   reconnectAttempts (example_client\<lparr> reconnectAttempts := 2 \<rparr>) = 3 - 1 \<and>
   reconnectTimer (handleConnectionFailure (example_client\<lparr> reconnectAttempts := 2 \<rparr>))
     = Some 6000"
proof -
  have c: "config example_client = DEFAULT_CONFIG ''ws://localhost:8080''"
    "state example_client = connected"
    by (simp_all add: example_client_def newLoungeClient_def)
  have h: "(1::nat) \<le> 7" "real (7::nat) \<le> maxReconnectAttempts (config example_client)"
    by (simp_all add: c DEFAULT_CONFIG_def)
  have h3: "(1::nat) \<le> 3"
    "real (3::nat) \<le> maxReconnectAttempts (config (example_client\<lparr> reconnectAttempts := 2 \<rparr>))"
    by (simp_all add: c DEFAULT_CONFIG_def)
  from reconnect_backoff [OF h, of 1006]
       reconnect_backoff [OF h3, of 1006]
  show ?thesis
    by (simp add: c DEFAULT_CONFIG_def CloseCode_NORMAL_def)
qed

subsection \<open>Chat commands\<close>

lemma split_whitespace_nonempty: "split_whitespace s \<noteq> []"
  by (induction s) (auto split: list.splits)

lemma isWhiteSpace_letters:
  "isWhiteSpace CHR '' ''" "\<not> isWhiteSpace CHR ''w''" "\<not> isWhiteSpace CHR ''b''"
  "\<not> isWhiteSpace CHR ''o''" "\<not> isWhiteSpace CHR ''h''" "\<not> isWhiteSpace CHR ''e''"
  "\<not> isWhiteSpace CHR ''l''" "\<not> isWhiteSpace CHR ''t''" "\<not> isWhiteSpace CHR ''r''"
  "\<not> isWhiteSpace CHR ''/''" "\<not> isWhiteSpace CHR ''d''" "\<not> isWhiteSpace CHR ''a''"
  "\<not> isWhiteSpace CHR ''n''" "\<not> isWhiteSpace CHR ''c''"
  by (simp_all add: isWhiteSpace_def)

lemma split_w_bob: "split_whitespace ''w bob'' = [''w'', ''bob'']"
  by (simp add: isWhiteSpace_letters)

lemma split_w_bob_hello_there:
  "split_whitespace ''w bob hello there'' = [''w'', ''bob'', ''hello'', ''there'']"
  by (simp add: isWhiteSpace_letters)

lemma toLowerCase_w: "toLowerCase ''w'' = ''w''"
  by (simp add: toLowerCase_def toLowerCase_char_def)

lemma trim_examples:
  "trim ''bob'' = ''bob''" "trim ''hello there'' = ''hello there''"
  "trim ''/w bob'' = ''/w bob''" "trim ''/w bob hello there'' = ''/w bob hello there''"
  by (simp_all add: trim_def isWhiteSpace_letters)

lemma handleCommand_w_bob_hello_there:
  "handleCommand nts now c ''/w bob hello there'' m =
     Inr (fst (sendWhisper now c ''bob'' ''hello there''),
          snd (sendWhisper now c ''bob'' ''hello there''), m)"
  by (simp add: handleCommand_def split_w_bob_hello_there toLowerCase_w case_prod_unfold Let_def
        del: split_whitespace.simps)

lemma sendWhisper_connected:
  assumes "state c = connected" "socket c" "clientId c = Some cid" "cid \<noteq> []"
  shows "sendWhisper now c ''bob'' ''hello there'' =
     (\<lparr> handled = True, error = None \<rparr>,
      [createMessage now CHAT_WHISPER (ChatWhisperPayload None (Some ''bob'') ''hello there'') cid])"
  using assms by (simp add: sendWhisper_def trim_examples client_send_def truthy_def)

lemma handleCommand_w_bob:
  "handleCommand nts now c ''/w bob'' m =
     Inr (\<lparr> handled = False, error = Some ''Usage: /w <player> <message>'' \<rparr>, [], m)"
  by (simp add: handleCommand_def split_w_bob toLowerCase_w del: split_whitespace.simps)

lemma handleCommand_unknown:
  assumes "toLowerCase (hd (split_whitespace (drop 1 input)))
             \<notin> {''me'', ''w'', ''whisper'', ''msg'', ''tell'', ''help''}"
  shows "handleCommand nts now c input m =
     Inr (\<lparr> handled = False,
            error = Some (''Unknown command: /'' @
                          toLowerCase (hd (split_whitespace (drop 1 input)))) \<rparr>,
          [], m)"
proof (cases "split_whitespace (drop 1 input)")
  case Nil
  then show ?thesis using split_whitespace_nonempty by blast
next
  case (Cons first args)
  with assms show ?thesis by (simp add: handleCommand_def Let_def)
qed

text \<open>
  C8. The command parser splits the input after the slash at white space. On
  \<open>/w bob hello there\<close> it calls \<open>sendWhisper\<close> with target \<open>bob\<close> and content
  \<open>hello there\<close>, which on a connected client sends that whisper; on \<open>/w bob\<close> it returns
  \<open>handled = false\<close> with the usage error and sends nothing; on every command that is
  none of \<open>me\<close>, \<open>w\<close>, \<open>whisper\<close>, \<open>msg\<close>, \<open>tell\<close>, \<open>help\<close> it returns
  \<open>handled = false\<close> with the error \<open>Unknown command: /\<close> followed by the command.
\<close>

theorem handleCommand_whisper_usage_unknown:
  "handleCommand nts now c ''/w bob hello there'' m =
     Inr (fst (sendWhisper now c ''bob'' ''hello there''),
          snd (sendWhisper now c ''bob'' ''hello there''), m) \<and>
   (state c = connected \<and> socket c \<and> clientId c = Some cid \<and> cid \<noteq> [] \<longrightarrow>
      chat_send nts now c ''/w bob hello there'' m =
        Inr (\<lparr> handled = True, error = None \<rparr>,
             [createMessage now CHAT_WHISPER
                (ChatWhisperPayload None (Some ''bob'') ''hello there'') cid], m)) \<and>
   handleCommand nts now c ''/w bob'' m =
     Inr (\<lparr> handled = False, error = Some ''Usage: /w <player> <message>'' \<rparr>, [], m) \<and>
   chat_send nts now c ''/w bob'' m =
     Inr (\<lparr> handled = False, error = Some ''Usage: /w <player> <message>'' \<rparr>, [], m) \<and>
   (toLowerCase (hd (split_whitespace (drop 1 input)))
      \<notin> {''me'', ''w'', ''whisper'', ''msg'', ''tell'', ''help''} \<longrightarrow>
    handleCommand nts now c input m =
      Inr (\<lparr> handled = False,
             error = Some (''Unknown command: /'' @
                           toLowerCase (hd (split_whitespace (drop 1 input)))) \<rparr>,
           [], m))"
proof (intro conjI impI)
  show "handleCommand nts now c ''/w bob hello there'' m =
     Inr (fst (sendWhisper now c ''bob'' ''hello there''),
          snd (sendWhisper now c ''bob'' ''hello there''), m)"
    by (rule handleCommand_w_bob_hello_there)
  show "handleCommand nts now c ''/w bob'' m =
     Inr (\<lparr> handled = False, error = Some ''Usage: /w <player> <message>'' \<rparr>, [], m)"
    by (rule handleCommand_w_bob)
  show "chat_send nts now c ''/w bob'' m =
     Inr (\<lparr> handled = False, error = Some ''Usage: /w <player> <message>'' \<rparr>, [], m)"
    by (simp add: chat_send_def trim_examples startsWith_def handleCommand_w_bob)
next
  assume "state c = connected \<and> socket c \<and> clientId c = Some cid \<and> cid \<noteq> []"
  then have "sendWhisper now c ''bob'' ''hello there'' =
     (\<lparr> handled = True, error = None \<rparr>,
      [createMessage now CHAT_WHISPER (ChatWhisperPayload None (Some ''bob'') ''hello there'') cid])"
    by (simp add: sendWhisper_connected)
  then show "chat_send nts now c ''/w bob hello there'' m =
        Inr (\<lparr> handled = True, error = None \<rparr>,
             [createMessage now CHAT_WHISPER
                (ChatWhisperPayload None (Some ''bob'') ''hello there'') cid], m)"
    by (simp add: chat_send_def trim_examples startsWith_def handleCommand_w_bob_hello_there)
next
  assume "toLowerCase (hd (split_whitespace (drop 1 input)))
            \<notin> {''me'', ''w'', ''whisper'', ''msg'', ''tell'', ''help''}"
  then show "handleCommand nts now c input m =
      Inr (\<lparr> handled = False,
             error = Some (''Unknown command: /'' @
                           toLowerCase (hd (split_whitespace (drop 1 input)))) \<rparr>,
           [], m)"
    by (rule handleCommand_unknown)
qed

theorem handleCommand_whisper_usage_unknown_witness:
  "state example_client = connected \<and> socket example_client \<and>
   clientId example_client = Some ''abc123'' \<and> ''abc123'' \<noteq> [] \<and>
   chat_send (\<lambda>n. ''0'') 5 example_client ''/w bob hello there'' \<lparr> messages = [] \<rparr> =
     Inr (\<lparr> handled = True, error = None \<rparr>,
          [\<lparr> msg_type = ''chat:whisper'',
             payload = ChatWhisperPayload None (Some ''bob'') ''hello there'',
             timestamp = 5, senderId = ''abc123'' \<rparr>], \<lparr> messages = [] \<rparr>) \<and>
   toLowerCase (hd (split_whitespace (drop 1 ''/Dance'')))
      \<notin> {''me'', ''w'', ''whisper'', ''msg'', ''tell'', ''help''} \<and>
   handleCommand (\<lambda>n. ''0'') 5 example_client ''/Dance'' \<lparr> messages = [] \<rparr> =
     Inr (\<lparr> handled = False, error = Some ''Unknown command: /dance'' \<rparr>, [],
          \<lparr> messages = [] \<rparr>)"
proof -
  have c: "state example_client = connected" "socket example_client"
    "clientId example_client = Some ''abc123''"
    by (simp_all add: example_client_def newLoungeClient_def)
  have t: "hd (split_whitespace (drop 1 ''/Dance'')) = ''Dance''"
    by (simp add: isWhiteSpace_def)
  have l: "toLowerCase ''Dance'' = ''dance''"
    by code_simp
  have d: "toLowerCase (hd (split_whitespace (drop 1 ''/Dance''))) = ''dance''"
    by (simp only: t l)
  from handleCommand_whisper_usage_unknown
         [of "\<lambda>n. ''0''" 5 example_client "\<lparr> messages = [] \<rparr>" "''abc123''" "''/Dance''"]
  show ?thesis
    using c d by (simp add: createMessage_def CHAT_WHISPER_def del: split_whitespace.simps)
qed

subsection \<open>The two maps of the server\<close>

lemma Map_set_keys:
  "Map_keys (Map_set k v m) = (if k \<in> set (Map_keys m) then Map_keys m else Map_keys m @ [k])"
  by (simp add: Map_keys_def Map_set_def update_keys)

lemma Map_delete_keys: "Map_keys (Map_delete k m) = removeAll k (Map_keys m)"
  by (simp add: Map_keys_def Map_delete_def delete_keys)

lemma Map_get_Some_key: "Map_get m k = Some v \<Longrightarrow> k \<in> set (Map_keys m)"
  by (auto simp: Map_get_def Map_keys_def dest: map_of_SomeD intro: rev_image_eqI)

lemma Map_get_None_key: "Map_get m k = None \<Longrightarrow> k \<notin> set (Map_keys m)"
  by (simp add: Map_get_def Map_keys_def map_of_eq_None_iff)

lemma addPlayer_keys:
  "Map_keys (players (snd (addPlayer gen now i u r))) =
     (if i \<in> set (Map_keys (players r)) then Map_keys (players r) else Map_keys (players r) @ [i])"
  by (simp add: addPlayer_def Let_def Map_set_keys)

lemma removePlayer_keys:
  "Map_keys (players (snd (removePlayer i r))) = removeAll i (Map_keys (players r))"
proof (cases "Map_get (players r) i")
  case None
  then have "i \<notin> set (Map_keys (players r))" by (rule Map_get_None_key)
  with None show ?thesis by (simp add: removePlayer_def)
next
  case (Some p)
  then show ?thesis by (simp add: removePlayer_def Map_delete_keys)
qed

lemma updatePosition_keys:
  "Map_keys (players (snd (updatePosition now i pos rot r))) = Map_keys (players r)"
proof (cases "Map_get (players r) i")
  case None
  then show ?thesis by (simp add: updatePosition_def)
next
  case (Some p)
  then have "i \<in> set (Map_keys (players r))" by (rule Map_get_Some_key)
  with Some show ?thesis by (simp add: updatePosition_def Map_set_keys)
qed

lemma updateStatus_keys:
  "Map_keys (players (snd (updateStatus now i st r))) = Map_keys (players r)"
proof (cases "Map_get (players r) i")
  case None
  then show ?thesis by (simp add: updateStatus_def)
next
  case (Some p)
  then have "i \<in> set (Map_keys (players r))" by (rule Map_get_Some_key)
  with Some show ?thesis by (simp add: updateStatus_def Map_set_keys)
qed

lemma tick_loop_keys:
  "Map_keys (fst (tick_loop ps seen updates)) = Map_keys seen @ Map_keys ps"
  by (induction ps arbitrary: seen updates) (auto simp: Map_keys_def)

lemma tick_keys: "Map_keys (players (fst (tick now r))) = Map_keys (players r)"
proof (cases "onBroadcast r")
  case None
  then show ?thesis by (simp add: tick_def)
next
  case (Some cb)
  have "Map_keys (fst (tick_loop (players r) [] [])) = Map_keys (players r)"
    by (simp add: tick_loop_keys) (simp add: Map_keys_def)
  then show ?thesis using Some
    by (simp add: tick_def Let_def case_prod_unfold)
qed

lemma assignIsAlive_keys: "Map_keys (clients (assignIsAlive i b s)) = Map_keys (clients s)"
proof (cases "Map_get (clients s) i")
  case None
  then show ?thesis by (simp add: assignIsAlive_def)
next
  case (Some c)
  then have "i \<in> set (Map_keys (clients s))" by (rule Map_get_Some_key)
  with Some show ?thesis by (simp add: assignIsAlive_def Map_set_keys)
qed

lemma assignIsAlive_registry: "playerRegistry (assignIsAlive i b s) = playerRegistry s"
  by (simp add: assignIsAlive_def split: option.splits)

lemma match_assignIsAlive:
  "sessions_match_players (assignIsAlive i b s) = sessions_match_players s"
  by (simp add: sessions_match_players_def assignIsAlive_keys assignIsAlive_registry)

lemma match_init: "sessions_match_players newLoungeServer"
  by (simp add: sessions_match_players_def newLoungeServer_def start_def newPlayerRegistry_def
        Map_keys_def)

lemma onConnection_state:
  "clients (fst (onConnection gen now uuid chatIds s)) =
     Map_set uuid \<lparr> conn_id = uuid, readyState = WS_OPEN, isAlive = True,
                    connectedAt = now, lastPingSeq = 0,
                    conn_username = ''Player_'' @ take 6 uuid, metadata = [] \<rparr> (clients s)"
  "playerRegistry (fst (onConnection gen now uuid chatIds s)) =
     snd (addPlayer gen now uuid (''Player_'' @ take 6 uuid) (playerRegistry s))"
  by (simp_all add: onConnection_def Let_def case_prod_unfold)

lemma match_onConnection:
  assumes "sessions_match_players s"
  shows "sessions_match_players (fst (onConnection gen now uuid chatIds s))"
  using assms
  by (auto simp: sessions_match_players_def onConnection_state Map_set_keys addPlayer_keys)

lemma handleDisconnect_state:
  "clients (fst (handleDisconnect now chatIds client code reason s)) =
     Map_delete (conn_id client) (clients s)"
  "playerRegistry (fst (handleDisconnect now chatIds client code reason s)) =
     snd (removePlayer (conn_id client) (playerRegistry s))"
  by (simp_all add: handleDisconnect_def Let_def)

lemma removal_keeps_match:
  assumes "sessions_match_players s"
    and "Map_keys (clients s') = removeAll i (Map_keys (clients s))"
    and "Map_keys (players (playerRegistry s')) = removeAll i (Map_keys (players (playerRegistry s)))"
  shows "sessions_match_players s'"
  using assms by (simp add: sessions_match_players_def distinct_removeAll)

lemma match_handleDisconnect:
  assumes "sessions_match_players s"
  shows "sessions_match_players (fst (handleDisconnect now chatIds client code reason s))"
  by (rule removal_keeps_match [OF assms, where i = "conn_id client"])
     (simp_all add: handleDisconnect_state Map_delete_keys removePlayer_keys)

lemma heartbeat_step_dead:
  assumes "\<not> isAlive client"
  shows "clients (fst (heartbeat_step now (i, client) (s, out))) = Map_delete i (clients s)"
    and "playerRegistry (fst (heartbeat_step now (i, client) (s, out))) =
           snd (removePlayer i (playerRegistry s))"
  using assms by (simp_all add: heartbeat_step_def Let_def)

lemma heartbeat_step_alive:
  assumes "isAlive client"
  shows "fst (heartbeat_step now (i, client) (s, out)) = assignIsAlive i False s"
  using assms by (simp add: heartbeat_step_def)

lemma match_heartbeat_step:
  assumes "sessions_match_players s"
  shows "sessions_match_players (fst (heartbeat_step now entry (s, out)))"
proof -
  obtain i client where e: "entry = (i, client)" by (cases entry)
  show ?thesis
  proof (cases "isAlive client")
    case False
    show ?thesis unfolding e
      by (rule removal_keeps_match [OF assms, where i = i])
         (simp_all add: heartbeat_step_dead [OF False] Map_delete_keys removePlayer_keys)
  next
    case True
    with assms show ?thesis
      by (simp add: e heartbeat_step_alive match_assignIsAlive)
  qed
qed

lemma match_sweep_prefix:
  assumes "sessions_match_players (fst acc)"
  shows "sessions_match_players (fst (foldl (\<lambda>acc entry. heartbeat_step now entry acc) acc es))"
  using assms
proof (induction es arbitrary: acc)
  case Nil
  then show ?case by simp
next
  case (Cons e es)
  obtain s out where acc: "acc = (s, out)" by (cases acc)
  with Cons.prems have "sessions_match_players (fst (heartbeat_step now e acc))"
    by (simp add: match_heartbeat_step)
  then show ?case using Cons.IH by simp
qed

lemma match_heartbeat:
  assumes "sessions_match_players s"
  shows "sessions_match_players (fst (heartbeat now s))"
  unfolding heartbeat_def using assms by (intro match_sweep_prefix) simp

lemma match_registry_keys:
  assumes "sessions_match_players s"
    and "clients s' = clients s"
    and "Map_keys (players (playerRegistry s')) = Map_keys (players (playerRegistry s))"
  shows "sessions_match_players s'"
  using assms by (simp add: sessions_match_players_def)

lemma handlePlayerMessage_match:
  assumes "sessions_match_players s" and "handlePlayerMessage now client msg s = Inr (s', out)"
  shows "sessions_match_players s'"
proof (rule match_registry_keys [OF assms(1)])
  show "clients s' = clients s"
    using assms(2)
    by (auto simp: handlePlayerMessage_def Let_def split: if_splits Payload.splits)
  show "Map_keys (players (playerRegistry s')) = Map_keys (players (playerRegistry s))"
    using assms(2)
    by (auto simp: handlePlayerMessage_def Let_def updatePosition_keys updateStatus_keys
          split: if_splits Payload.splits)
qed

lemma handleChatMessage_state:
  assumes "handleChatMessage now chatIds client msg s = Inr (s', out)"
  shows "s' = s"
  using assms
  by (auto simp: handleChatMessage_def Let_def split: if_splits Payload.splits option.splits)

lemma handleMessage_match:
  assumes "sessions_match_players s"
    and "handleMessage now chatIds client parsed s = Inr (s', out)"
  shows "sessions_match_players s'"
proof (cases parsed)
  case None
  with assms show ?thesis by (simp add: handleMessage_def)
next
  case (Some msg)
  consider (ping) "msg_type msg = PING"
    | (pong) "msg_type msg \<noteq> PING" "msg_type msg = PONG"
    | (player) "msg_type msg \<noteq> PING" "msg_type msg \<noteq> PONG" "isPlayerMessage msg"
    | (chat) "msg_type msg \<noteq> PING" "msg_type msg \<noteq> PONG" "\<not> isPlayerMessage msg"
        "isChatMessage msg"
    | (other) "msg_type msg \<noteq> PING" "msg_type msg \<noteq> PONG" "\<not> isPlayerMessage msg"
        "\<not> isChatMessage msg"
    by blast
  then show ?thesis
  proof cases
    case ping
    with assms Some show ?thesis
      by (auto simp: handleMessage_def split: Payload.splits)
  next
    case pong
    with assms Some show ?thesis
      by (auto simp: handleMessage_def match_assignIsAlive)
  next
    case player
    with assms Some show ?thesis
      by (auto simp: handleMessage_def dest: handlePlayerMessage_match)
  next
    case chat
    with assms Some show ?thesis
      by (auto simp: handleMessage_def dest: handleChatMessage_state)
  next
    case other
    with assms Some show ?thesis
      by (auto simp: handleMessage_def)
  qed
qed

lemma match_onTick:
  assumes "sessions_match_players s"
  shows "sessions_match_players (fst (onTick now s))"
proof (rule match_registry_keys [OF assms])
  show "clients (fst (onTick now s)) = clients s"
    by (simp add: onTick_def Let_def case_prod_unfold split: option.splits)
  show "Map_keys (players (playerRegistry (fst (onTick now s)))) =
          Map_keys (players (playerRegistry s))"
    by (simp add: onTick_def Let_def case_prod_unfold tick_keys split: option.splits)
qed

lemma reachable_match:
  assumes "reachable s"
  shows "sessions_match_players s"
  using assms
proof (induction rule: reachable.induct)
  case init
  show ?case by (rule match_init)
next
  case (connection s gen now uuid chatIds)
  then show ?case by (simp add: match_onConnection)
next
  case (message s now chatIds client parsed s' out)
  then show ?case using handleMessage_match by blast
next
  case (pong s client)
  then show ?case by (simp add: onPong_def match_assignIsAlive)
next
  case (close s now chatIds client code reason)
  then show ?case by (simp add: match_handleDisconnect)
next
  case (sweep s now)
  then show ?case by (simp add: match_heartbeat)
next
  case (tick s now)
  then show ?case by (simp add: match_onTick)
qed

lemma handleDisconnect_keys:
  "Map_keys (clients (fst (handleDisconnect now chatIds client code reason s))) =
     removeAll (conn_id client) (Map_keys (clients s))"
  "Map_keys (players (playerRegistry (fst (handleDisconnect now chatIds client code reason s)))) =
     removeAll (conn_id client) (Map_keys (players (playerRegistry s)))"
  by (simp_all add: handleDisconnect_state Map_delete_keys removePlayer_keys)

lemma heartbeat_step_dead_keys:
  assumes "\<not> isAlive client"
  shows "Map_keys (clients (fst (heartbeat_step now (i, client) (s, out)))) =
           removeAll i (Map_keys (clients s))"
    and "Map_keys (players (playerRegistry (fst (heartbeat_step now (i, client) (s, out))))) =
           removeAll i (Map_keys (players (playerRegistry s)))"
  by (simp_all add: heartbeat_step_dead [OF assms] Map_delete_keys removePlayer_keys)

text \<open>
  C9. In every state the server reaches, the session ids of the client map are the
  player ids of the registry, each once; so it is after a connection is accepted,
  after a socket close is handled, after every single step of the heartbeat sweep and
  after the whole sweep. Handling a close, and terminating a session in the sweep,
  removes the session's id from both maps in the same step.
\<close>

theorem sessions_match_players_after_every_handler:
  assumes "reachable s"
  shows "sessions_match_players s \<and>
         sessions_match_players (fst (onConnection gen now uuid chatIds s)) \<and>
         sessions_match_players (fst (handleDisconnect now chatIds client code reason s)) \<and>
         Map_keys (clients (fst (handleDisconnect now chatIds client code reason s))) =
           removeAll (conn_id client) (Map_keys (clients s)) \<and>
         Map_keys (players (playerRegistry
                      (fst (handleDisconnect now chatIds client code reason s)))) =
           removeAll (conn_id client) (Map_keys (players (playerRegistry s))) \<and>
         (\<forall>n. sessions_match_players
                (fst (foldl (\<lambda>acc entry. heartbeat_step now entry acc) (s, [])
                        (take n (clients s))))) \<and>
         (\<not> isAlive c \<longrightarrow>
            Map_keys (clients (fst (heartbeat_step now (i, c) (s, out)))) =
              removeAll i (Map_keys (clients s)) \<and>
            Map_keys (players (playerRegistry (fst (heartbeat_step now (i, c) (s, out))))) =
              removeAll i (Map_keys (players (playerRegistry s)))) \<and>
         sessions_match_players (fst (heartbeat now s))"
proof -
  have m: "sessions_match_players s" using assms by (rule reachable_match)
  have sweep: "sessions_match_players
                 (fst (foldl (\<lambda>acc entry. heartbeat_step now entry acc) (s, [])
                         (take n (clients s))))" for n
    by (rule match_sweep_prefix) (simp add: m)
  show ?thesis
    using m sweep
    by (simp add: match_onConnection match_handleDisconnect match_heartbeat
          handleDisconnect_keys heartbeat_step_dead_keys)
qed

theorem sessions_match_players_after_every_handler_witness:
  "reachable example_server \<and>
   sessions_match_players example_server \<and>
   Map_keys (clients example_server) = [''aaaaaaaa'', ''bbbbbbbb''] \<and>
   Map_keys (players (playerRegistry example_server)) = [''aaaaaaaa'', ''bbbbbbbb''] \<and>
   Map_keys (clients (fst (handleDisconnect 5 (\<lambda>n. ''chat_2'') (example_connection ''aaaaaaaa'')
                             1006 ''gone'' example_server))) = [''bbbbbbbb''] \<and>
   Map_keys (players (playerRegistry
       (fst (handleDisconnect 5 (\<lambda>n. ''chat_2'') (example_connection ''aaaaaaaa'')
               1006 ''gone'' example_server)))) = [''bbbbbbbb''] \<and>
   sessions_match_players
     (fst (handleDisconnect 5 (\<lambda>n. ''chat_2'') (example_connection ''aaaaaaaa'')
             1006 ''gone'' example_server))"
proof -
  have r: "reachable example_server"
    unfolding example_server_def
    by (intro reachable.connection reachable.init)
  have k: "Map_keys (clients example_server) = [''aaaaaaaa'', ''bbbbbbbb'']"
    "Map_keys (players (playerRegistry example_server)) = [''aaaaaaaa'', ''bbbbbbbb'']"
    by (simp_all add: example_server_def onConnection_state Map_set_keys addPlayer_keys
          newLoungeServer_def start_def newPlayerRegistry_def)
       (simp_all add: Map_keys_def)
  from sessions_match_players_after_every_handler
         [OF r, where client = "example_connection ''aaaaaaaa''" and now = 5
            and chatIds = "\<lambda>n. ''chat_2''" and code = 1006 and reason = "''gone''"]
  show ?thesis
    using r k by (simp add: example_connection_def)
qed

subsection \<open>Whispers to unknown players\<close>

lemma findByUsername_None:
  "list_all (\<lambda>c. toLowerCase (conn_username c) \<noteq> toLowerCase name) (Map_values cs)
     \<Longrightarrow> findByUsername name cs = None"
  by (induction cs) (auto simp: Map_values_def)

lemma Map_get_absent:
  "list_all (\<lambda>i. Some i \<noteq> Some t) (Map_keys cs) \<Longrightarrow> Map_get cs t = None"
  by (induction cs) (auto simp: Map_keys_def Map_get_def)

lemma resolves_to_no_client_findTarget:
  assumes "resolves_to_no_client cs tid tname"
  shows "findTarget cs tid tname = None"
proof (cases "truthy tid")
  case True
  then obtain t where t: "tid = Some t" by (auto simp: truthy_def split: option.splits)
  with assms have "Map_get cs t = None"
    by (simp add: resolves_to_no_client_def Map_get_absent)
  with True t show ?thesis by (simp add: findTarget_def)
next
  case False
  show ?thesis
  proof (cases "truthy tname")
    case True
    then obtain n where n: "tname = Some n" by (auto simp: truthy_def split: option.splits)
    with assms have "findByUsername n cs = None"
      by (simp add: resolves_to_no_client_def findByUsername_None)
    with True False n show ?thesis by (simp add: findTarget_def)
  next
    case f: False
    with False show ?thesis by (simp add: findTarget_def)
  qed
qed

lemma handleChatMessage_unresolved:
  assumes "msg_type msg = CHAT_WHISPER" and "payload msg = ChatWhisperPayload tid tname text"
    and "findTarget (clients s) tid tname = None"
  shows "handleChatMessage now chatIds client msg s =
           Inr (s, sendTo client
                     (createMessage now CHAT_ERROR
                        (ChatErrorPayload ''PLAYER_NOT_FOUND''
                           (playerNotFound (firstTruthy tname tid ''unknown'')))
                        ''server''))"
  using assms by (simp add: handleChatMessage_def CHAT_WHISPER_def CHAT_SEND_def)

lemma handleMessage_whisper:
  assumes "msg_type msg = CHAT_WHISPER"
  shows "handleMessage now chatIds client (Some msg) s = handleChatMessage now chatIds client msg s"
  using assms
  by (simp add: handleMessage_def CHAT_WHISPER_def PING_def PONG_def isPlayerMessage_def
        isChatMessage_def startsWith_def)

text \<open>
  C7. A whisper whose target resolves to no connected client (no client has the target
  id, no client's user name equals the target name up to case) leaves the server's
  state unchanged and makes it write to the sender's socket only: the one
  \<open>chat:error\<close> envelope with code \<open>PLAYER_NOT_FOUND\<close>, which \<open>sendTo\<close> writes when that
  socket is open, as it is when it has just delivered the whisper. Nothing is sent to
  any other client.
\<close>

theorem whisper_unresolved_error:
  assumes "msg_type msg = CHAT_WHISPER" and "payload msg = ChatWhisperPayload tid tname text"
    and "resolves_to_no_client (clients s) tid tname"
  shows "handleMessage now chatIds client (Some msg) s =
           Inr (s, sendTo client
                     (createMessage now CHAT_ERROR
                        (ChatErrorPayload ''PLAYER_NOT_FOUND''
                           (playerNotFound (firstTruthy tname tid ''unknown'')))
                        ''server'')) \<and>
         (readyState client = WS_OPEN \<longrightarrow>
            handleMessage now chatIds client (Some msg) s =
              Inr (s, [(conn_id client,
                        Send (createMessage now CHAT_ERROR
                                (ChatErrorPayload ''PLAYER_NOT_FOUND''
                                   (playerNotFound (firstTruthy tname tid ''unknown'')))
                                ''server''))])) \<and>
         (\<forall>s' out. handleMessage now chatIds client (Some msg) s = Inr (s', out) \<longrightarrow>
            length out \<le> 1 \<and> (\<forall>(i, a) \<in> set out. i = conn_id client))"
  using assms
  by (simp add: handleMessage_whisper handleChatMessage_unresolved
        resolves_to_no_client_findTarget sendTo_def)

theorem whisper_unresolved_error_witness:
  "msg_type example_whisper = CHAT_WHISPER \<and>
   payload example_whisper = ChatWhisperPayload None (Some ''nobody'') ''psst'' \<and>
   resolves_to_no_client (clients example_lounge) None (Some ''nobody'') \<and>
   readyState (example_connection ''aaaaaaaa'') = WS_OPEN \<and>
   handleMessage 9 (\<lambda>n. ''chat_3'') (example_connection ''aaaaaaaa'') (Some example_whisper)
       example_lounge =
     Inr (example_lounge,
          [(''aaaaaaaa'',
            Send \<lparr> msg_type = ''chat:error'',
                   payload = ChatErrorPayload ''PLAYER_NOT_FOUND'' (playerNotFound ''nobody''),
                   timestamp = 9, senderId = ''server'' \<rparr>)])"
proof -
  have t: "msg_type example_whisper = CHAT_WHISPER"
    by (simp add: example_whisper_def CHAT_WHISPER_def)
  have p: "payload example_whisper = ChatWhisperPayload None (Some ''nobody'') ''psst''"
    by (simp add: example_whisper_def)
  have l: "toLowerCase ''Player_aaaaaa'' \<noteq> toLowerCase ''nobody''"
    "toLowerCase ''Player_bbbbbb'' \<noteq> toLowerCase ''nobody''"
    by code_simp+
  have u: "resolves_to_no_client (clients example_lounge) None (Some ''nobody'')"
    using l
    by (simp add: resolves_to_no_client_def example_lounge_def example_connection_def
          Map_keys_def Map_values_def)
  have o: "readyState (example_connection ''aaaaaaaa'') = WS_OPEN"
    by (simp add: example_connection_def)
  from whisper_unresolved_error
         [OF t p u, of 9 "\<lambda>n. ''chat_3''" "example_connection ''aaaaaaaa''"]
  have "handleMessage 9 (\<lambda>n. ''chat_3'') (example_connection ''aaaaaaaa'')
          (Some example_whisper) example_lounge =
        Inr (example_lounge,
             [(conn_id (example_connection ''aaaaaaaa''),
               Send (createMessage 9 CHAT_ERROR
                       (ChatErrorPayload ''PLAYER_NOT_FOUND''
                          (playerNotFound (firstTruthy (Some ''nobody'') None ''unknown'')))
                       ''server''))])"
    using o by blast
  then show ?thesis
    using t p u o
    by (simp add: createMessage_def CHAT_ERROR_def firstTruthy_def truthy_def
          example_connection_def)
qed

subsection \<open>Position batches reach their sender\<close>

lemma broadcast_loop_no_exclusion:
  "broadcast_loop msg None cs =
     map (\<lambda>(i, c). (conn_id c, Send msg)) (filter (\<lambda>(i, c). readyState c = WS_OPEN) cs)"
  by (induction cs) auto

lemma playerBroadcastCallback_eq:
  "playerBroadcastCallback now updates serverTime s =
     (if updates = [] then []
      else map (\<lambda>(i, c). (conn_id c,
                  Send (createMessage now PLAYER_BATCH_POSITION
                          (PlayerBatchPositionPayload updates serverTime) ''server'')))
             (filter (\<lambda>(i, c). readyState c = WS_OPEN) (clients s)))"
  by (simp add: playerBroadcastCallback_def broadcast_def broadcast_loop_no_exclusion)

lemma onTick_dirty:
  assumes "onBroadcast (playerRegistry s) = Some cb"
    and "(k, p) \<in> set (players (playerRegistry s))" and "dirty p"
  shows "snd (onTick now s) =
           map (\<lambda>(i, c). (conn_id c,
                  Send (createMessage now PLAYER_BATCH_POSITION
                          (PlayerBatchPositionPayload
                             (map positionUpdateOf
                                (filter dirty (Map_values (players (playerRegistry s))))) now)
                          ''server'')))
             (filter (\<lambda>(i, c). readyState c = WS_OPEN) (clients s))"
proof -
  have d: "\<exists>q \<in> set (Map_values (players (playerRegistry s))). dirty q"
    using assms(2,3) by (force simp: Map_values_def)
  then have ne: "map positionUpdateOf (filter dirty (Map_values (players (playerRegistry s)))) \<noteq> []"
    by (simp add: filter_empty_conv)
  show ?thesis
    using d ne
    by (simp add: onTick_def tick_started [OF assms(1)] playerBroadcastCallback_eq)
qed

lemma handleBatch_localPlayerId:
  "localPlayerId (handleBatchPositionUpdate us pm) = localPlayerId pm"
  by (induction us arbitrary: pm) (auto split: option.splits)

lemma handleBatch_skips_local:
  assumes "localPlayerId pm = Some me"
  shows "handleBatchPositionUpdate us pm =
           handleBatchPositionUpdate (filter (\<lambda>u. update_id u \<noteq> me) us) pm"
  using assms
  by (induction us arbitrary: pm) (auto split: option.splits)

text \<open>
  C10. The callback that the server registers for the tick broadcasts the
  \<open>player:batch_position\<close> envelope without an excluded id: it is sent to every client
  of the client map whose socket is open. So when a tick finds a dirty player, every
  open client is sent the batch that contains that player's update, the player's own
  client included. The client's player manager is what skips the updates whose id is
  its local player id.
\<close>

theorem batch_position_reaches_every_open_client:
  "playerBroadcastCallback now updates serverTime s =
     (if updates = [] then []
      else map (\<lambda>(i, c). (conn_id c,
                  Send (createMessage now PLAYER_BATCH_POSITION
                          (PlayerBatchPositionPayload updates serverTime) ''server'')))
             (filter (\<lambda>(i, c). readyState c = WS_OPEN) (clients s))) \<and>
   (onBroadcast (playerRegistry s) = Some cb \<and>
    (k, p) \<in> set (players (playerRegistry s)) \<and> dirty p \<and>
    (k', c) \<in> set (clients s) \<and> readyState c = WS_OPEN \<longrightarrow>
      positionUpdateOf p
        \<in> set (map positionUpdateOf (filter dirty (Map_values (players (playerRegistry s))))) \<and>
      (conn_id c,
       Send (createMessage now PLAYER_BATCH_POSITION
               (PlayerBatchPositionPayload
                  (map positionUpdateOf
                     (filter dirty (Map_values (players (playerRegistry s))))) now)
               ''server''))
        \<in> set (snd (onTick now s))) \<and>
   (localPlayerId pm = Some me \<longrightarrow>
      handleBatchPositionUpdate us pm =
        handleBatchPositionUpdate (filter (\<lambda>u. update_id u \<noteq> me) us) pm)"
proof (intro conjI impI)
  show "playerBroadcastCallback now updates serverTime s =
     (if updates = [] then []
      else map (\<lambda>(i, c). (conn_id c,
                  Send (createMessage now PLAYER_BATCH_POSITION
                          (PlayerBatchPositionPayload updates serverTime) ''server'')))
             (filter (\<lambda>(i, c). readyState c = WS_OPEN) (clients s)))"
    by (rule playerBroadcastCallback_eq)
next
  assume h: "onBroadcast (playerRegistry s) = Some cb \<and>
    (k, p) \<in> set (players (playerRegistry s)) \<and> dirty p \<and>
    (k', c) \<in> set (clients s) \<and> readyState c = WS_OPEN"
  then show "positionUpdateOf p
        \<in> set (map positionUpdateOf (filter dirty (Map_values (players (playerRegistry s)))))"
    by (force simp: Map_values_def)
  from h have "(k', c) \<in> set (filter (\<lambda>(i, c). readyState c = WS_OPEN) (clients s))"
    by simp
  then show "(conn_id c,
       Send (createMessage now PLAYER_BATCH_POSITION
               (PlayerBatchPositionPayload
                  (map positionUpdateOf
                     (filter dirty (Map_values (players (playerRegistry s))))) now)
               ''server''))
        \<in> set (snd (onTick now s))"
    using h onTick_dirty [of s cb k p now] by force
next
  assume "localPlayerId pm = Some me"
  then show "handleBatchPositionUpdate us pm =
        handleBatchPositionUpdate (filter (\<lambda>u. update_id u \<noteq> me) us) pm"
    by (rule handleBatch_skips_local)
qed


theorem batch_position_reaches_every_open_client_witness:
  "onBroadcast (playerRegistry example_lounge) = Some BroadcastPositions \<and>
   (''aaaaaaaa'', example_player ''aaaaaaaa'' 1 True) \<in> set (players (playerRegistry example_lounge)) \<and>
   dirty (example_player ''aaaaaaaa'' 1 True) \<and>
   (''aaaaaaaa'', example_connection ''aaaaaaaa'') \<in> set (clients example_lounge) \<and>
   readyState (example_connection ''aaaaaaaa'') = WS_OPEN \<and>
   update_id (positionUpdateOf (example_player ''aaaaaaaa'' 1 True)) = ''aaaaaaaa'' \<and>
   (''aaaaaaaa'',
    Send (createMessage 9 PLAYER_BATCH_POSITION
            (PlayerBatchPositionPayload [positionUpdateOf (example_player ''aaaaaaaa'' 1 True)] 9)
            ''server''))
     \<in> set (snd (onTick 9 example_lounge)) \<and>
   localPlayerId example_manager = Some ''aaaaaaaa'' \<and>
   handleBatchPositionUpdate [positionUpdateOf (example_player ''aaaaaaaa'' 1 True)] example_manager
     = example_manager"
proof -
  have h: "onBroadcast (playerRegistry example_lounge) = Some BroadcastPositions \<and>
    (''aaaaaaaa'', example_player ''aaaaaaaa'' 1 True) \<in> set (players (playerRegistry example_lounge)) \<and>
    dirty (example_player ''aaaaaaaa'' 1 True) \<and>
    (''aaaaaaaa'', example_connection ''aaaaaaaa'') \<in> set (clients example_lounge) \<and>
    readyState (example_connection ''aaaaaaaa'') = WS_OPEN"
    by (simp add: example_lounge_def example_player_def example_connection_def)
  have f: "filter dirty (Map_values (players (playerRegistry example_lounge))) =
             [example_player ''aaaaaaaa'' 1 True]"
    by (simp add: example_lounge_def example_player_def Map_values_def)
  have i: "update_id (positionUpdateOf (example_player ''aaaaaaaa'' 1 True)) = ''aaaaaaaa''"
    by (simp add: positionUpdateOf_def example_player_def)
  have l: "localPlayerId example_manager = Some ''aaaaaaaa''"
    by (simp add: example_manager_def)
  from batch_position_reaches_every_open_client
         [where s = example_lounge and cb = BroadcastPositions and k = "''aaaaaaaa''"
            and p = "example_player ''aaaaaaaa'' 1 True" and k' = "''aaaaaaaa''"
            and c = "example_connection ''aaaaaaaa''" and now = 9
            and pm = example_manager and me = "''aaaaaaaa''"
            and us = "[positionUpdateOf (example_player ''aaaaaaaa'' 1 True)]"]
  show ?thesis
    using h f i l by (simp add: example_connection_def)
qed

end
